theory Spec2Isabelle
  imports Complex_Main
begin

section \<open>Numbers\<close>

text \<open>
  The renderer of \<^verbatim>\<open>rayTracing.js\<close> computes with JavaScript numbers. They are
  modelled as the reals: \<open>Math.sqrt\<close> is \<open>sqrt\<close>, \<open>Math.acos\<close> is \<open>arccos\<close>,
  \<open>Math.pow(s, 7)\<close> is \<open>s ^ 7\<close>, \<open>Math.min\<close> and \<open>Math.max\<close> are \<open>min\<close> and \<open>max\<close>.
  Rounding is not modelled, except in \<open>rayIntersects_double\<close> below. The two places where the source leaves the finite numbers
  are written out:
  \<^item> \<open>let t = Infinity\<close> in \<open>traceRay\<close>: the running best distance is a \<open>real option\<close>,
    \<open>None\<close> standing for \<open>Infinity\<close>;
  \<^item> a division by zero gives \<open>NaN\<close> or an infinity in the source and \<open>0\<close> in HOL. The
    source divides in \<open>rayIntersects\<close> by \<open>2 * a\<close>, reached only with a positive
    discriminant, where \<open>a > 0\<close> (\<open>discriminant_pos_direction\<close>); in \<open>normalised\<close> by the
    length, which is not zero for the light direction (\<open>lightDirection_eq\<close>), for the
    normal of a hit (\<open>hit_on_sphere\<close>, \<open>discriminant_pos_radius\<close>), for the view direction
    of a hit (\<open>view_offset_nonzero\<close>) and for the camera direction
    (\<open>camera_direction_nonzero\<close>); and in \<open>render\<close> by the width and the height, inside
    loops that run only when these are positive. The direction of a ray given to
    \<open>backgroundColour\<close> is the one vector the code normalises without such a guarantee:
    the theorems about it take a direction that is not the zero vector.
\<close>

section \<open>Vec3, Ray, Sphere\<close>

record Vec3 =
  x :: real
  y :: real
  z :: real

definition scale :: "Vec3 \<Rightarrow> real \<Rightarrow> Vec3" where
  "scale v scalar = \<lparr>x = x v * scalar, y = y v * scalar, z = z v * scalar\<rparr>"

definition dot :: "Vec3 \<Rightarrow> Vec3 \<Rightarrow> real" where
  "dot v other = x v * x other + y v * y other + z v * z other"

definition normalised :: "Vec3 \<Rightarrow> Vec3" where
  "normalised v =
     (let len = sqrt ((x v)\<^sup>2 + (y v)\<^sup>2 + (z v)\<^sup>2)
      in \<lparr>x = x v / len, y = y v / len, z = z v / len\<rparr>)"

definition subtract :: "Vec3 \<Rightarrow> Vec3 \<Rightarrow> Vec3" where
  "subtract v other = \<lparr>x = x v - x other, y = y v - y other, z = z v - z other\<rparr>"

definition add :: "Vec3 \<Rightarrow> Vec3 \<Rightarrow> Vec3" where
  "add v other = \<lparr>x = x v + x other, y = y v + y other, z = z v + z other\<rparr>"

record Ray =
  origin :: Vec3
  direction :: Vec3

definition pointAt :: "Ray \<Rightarrow> real \<Rightarrow> Vec3" where
  "pointAt ray t =
     \<lparr>x = x (origin ray) + t * x (direction ray),
      y = y (origin ray) + t * y (direction ray),
      z = z (origin ray) + t * z (direction ray)\<rparr>"

record Sphere =
  center :: Vec3
  radius :: real
  color :: Vec3

text \<open>
  \<open>Sphere.rayIntersects\<close>. The division by \<open>2 * a\<close> is reached only when the
  discriminant is positive, and then \<open>a\<close> is positive (lemma \<open>discriminant_pos_a_pos\<close>).
\<close>

definition rayIntersects :: "Sphere \<Rightarrow> Ray \<Rightarrow> real" where
  "rayIntersects sphere ray =
     (let oc = subtract (origin ray) (center sphere);
          a = dot (direction ray) (direction ray);
          b = 2 * dot oc (direction ray);
          c = dot oc oc - radius sphere * radius sphere;
          discriminant = b * b - 4 * a * c
      in if discriminant > 0 then
           (let t1 = (- b - sqrt discriminant) / (2 * a);
                t2 = (- b + sqrt discriminant) / (2 * a)
            in min t1 t2)
         else - 1)"

text \<open>The local \<open>discriminant\<close> of \<open>rayIntersects\<close>, named for the lemmas below.\<close>

definition discriminant :: "Sphere \<Rightarrow> Ray \<Rightarrow> real" where
  "discriminant sphere ray =
     (let oc = subtract (origin ray) (center sphere);
          a = dot (direction ray) (direction ray);
          b = 2 * dot oc (direction ray);
          c = dot oc oc - radius sphere * radius sphere
      in b * b - 4 * a * c)"

section \<open>The intersection in double precision\<close>








section \<open>The scene\<close>

definition spheres :: "Sphere list" where
  "spheres =
     [\<lparr>center = \<lparr>x = 0, y = 0.3, z = - 3.5\<rparr>, radius = 1, color = \<lparr>x = 1, y = 0, z = 0\<rparr>\<rparr>,
      \<lparr>center = \<lparr>x = 0, y = 1, z = - 2.8\<rparr>, radius = 0.5, color = \<lparr>x = 0, y = 0, z = 1\<rparr>\<rparr>,
      \<lparr>center = \<lparr>x = 0, y = - 14, z = - 5\<rparr>, radius = 13,
       color = \<lparr>x = 58 / 255, y = 240 / 255, z = 46 / 255\<rparr>\<rparr>]"

definition lightDirection :: Vec3 where
  "lightDirection = normalised \<lparr>x = - 1.1, y = - 1.3, z = - 1.5\<rparr>"

definition negLightDirection :: Vec3 where
  "negLightDirection =
     \<lparr>x = - x lightDirection, y = - y lightDirection, z = - z lightDirection\<rparr>"

section \<open>Shading\<close>

text \<open>
  \<open>Math.atan2 (a, b)\<close>, the angle of the point \<open>(b, a)\<close> in \<open>(-\<pi>, \<pi>]\<close>, by the cases of
  its definition (signed zeros are not modelled).
\<close>

definition atan2 :: "real \<Rightarrow> real \<Rightarrow> real" where
  "atan2 a b =
     (if b > 0 then arctan (a / b)
      else if b < 0 \<and> a \<ge> 0 then arctan (a / b) + pi
      else if b < 0 then arctan (a / b) - pi
      else if a > 0 then pi / 2
      else if a < 0 then - (pi / 2)
      else 0)"

definition backgroundColour :: "Ray \<Rightarrow> Vec3" where
  "backgroundColour ray =
     (let dir = normalised (direction ray);
          phi = atan2 (x dir) (z dir);
          theta = arccos (y dir);
          u = (phi + pi) / (2 * pi);
          v = theta / pi;
          skyColor = \<lparr>x = 0.5, y = 0.9, z = 1.0\<rparr>;
          groundColor = \<lparr>x = 0.3, y = 0.3, z = 0.5\<rparr>
      in add (scale skyColor (1 - v)) (scale groundColor v))"

definition diffuseLighting :: "Vec3 \<Rightarrow> real" where
  "diffuseLighting normal = max (dot normal negLightDirection) 0"

definition specularLighting :: "Vec3 \<Rightarrow> Vec3 \<Rightarrow> real" where
  "specularLighting normal viewDirection =
     (let reflection = subtract (scale normal (2 * dot normal lightDirection)) lightDirection;
          specular = max (dot reflection viewDirection) 0
      in specular ^ 7 * 0.8)"

section \<open>The nearest hit\<close>

text \<open>
  The loop of \<open>traceRay\<close> over the indices of the scene, with its three local variables
  as the state: \<open>t\<close> (\<open>None\<close> is \<open>Infinity\<close>, so that \<open>tIntersection < t\<close> holds for every
  number), \<open>closestSphereIndex\<close> (an integer, \<open>-1\<close> at the start) and \<open>closestNormal\<close>
  (\<open>None\<close> is \<open>null\<close>). The scene is a parameter of the loop; \<open>traceRay\<close> runs it on
  \<open>spheres\<close>.
\<close>

function traceRay_loop ::
  "Sphere list \<Rightarrow> Ray \<Rightarrow> nat \<Rightarrow> real option \<times> int \<times> Vec3 option \<Rightarrow> real option \<times> int \<times> Vec3 option"
where
  "traceRay_loop sps ray i (t, closestSphereIndex, closestNormal) =
     (if i < length sps then
        (let sphere = sps ! i;
             tIntersection = rayIntersects sphere ray
         in if tIntersection > 0 \<and> (case t of None \<Rightarrow> True | Some tb \<Rightarrow> tIntersection < tb) then
              (let hitPoint = pointAt ray tIntersection;
                   normal = normalised (subtract hitPoint (center sphere))
               in traceRay_loop sps ray (i + 1) (Some tIntersection, int i, Some normal))
            else traceRay_loop sps ray (i + 1) (t, closestSphereIndex, closestNormal))
      else (t, closestSphereIndex, closestNormal))"
  by pat_completeness auto
termination
  by (relation "measure (\<lambda>(sps, ray, i, st). length sps - i)") auto

declare traceRay_loop.simps [simp del]

text \<open>
  The object \<open>traceRay\<close> returns: \<open>{ t: -1 }\<close> has no \<open>sphereIndex\<close> and no \<open>normal\<close>
  (\<open>None\<close>); a hit has all three.
\<close>

record CastResult =
  t :: real
  sphereIndex :: "int option"
  normal :: "Vec3 option"

text \<open>
  The return of \<open>traceRay\<close>. With \<open>closestSphereIndex \<ge> 0\<close> the distance has been
  assigned a number (lemma \<open>traceRay_loop_inv\<close>), so the last case, which would return
  \<open>Infinity\<close> as the distance, is never taken; it is given the miss.
\<close>

definition traceRay_return :: "real option \<times> int \<times> Vec3 option \<Rightarrow> CastResult" where
  "traceRay_return st =
     (case st of (tBest, closestSphereIndex, closestNormal) \<Rightarrow>
        if closestSphereIndex < 0 then \<lparr>t = - 1, sphereIndex = None, normal = None\<rparr>
        else (case tBest of
                Some tb \<Rightarrow> \<lparr>t = tb, sphereIndex = Some closestSphereIndex, normal = closestNormal\<rparr>
              | None \<Rightarrow> \<lparr>t = - 1, sphereIndex = None, normal = None\<rparr>))"

definition traceRay_on :: "Sphere list \<Rightarrow> Ray \<Rightarrow> CastResult" where
  "traceRay_on sps ray = traceRay_return (traceRay_loop sps ray 0 (None, - 1, None))"

definition traceRay :: "Ray \<Rightarrow> CastResult" where
  "traceRay ray = traceRay_on spheres ray"

text \<open>
  The invariant of the loop before index \<open>i\<close>: either no sphere before \<open>i\<close> has a positive
  intersection and the variables are as initialised, or they hold the intersection, the
  index and the normal of a sphere \<open>k < i\<close> whose positive intersection is the least among
  the positive ones before \<open>i\<close> and strictly less than those before \<open>k\<close>.
\<close>

definition hitNormal :: "Sphere \<Rightarrow> Ray \<Rightarrow> Vec3" where
  "hitNormal sphere ray =
     normalised (subtract (pointAt ray (rayIntersects sphere ray)) (center sphere))"

definition trace_inv :: "Sphere list \<Rightarrow> Ray \<Rightarrow> nat \<Rightarrow> real option \<times> int \<times> Vec3 option \<Rightarrow> bool" where
  "trace_inv sps ray i st \<longleftrightarrow>
     (st = (None, - 1, None) \<and> (\<forall>j<i. rayIntersects (sps ! j) ray \<le> 0)) \<or>
     (\<exists>k<i. st = (Some (rayIntersects (sps ! k) ray), int k, Some (hitNormal (sps ! k) ray)) \<and>
        0 < rayIntersects (sps ! k) ray \<and>
        (\<forall>j<i. 0 < rayIntersects (sps ! j) ray \<longrightarrow>
           rayIntersects (sps ! k) ray \<le> rayIntersects (sps ! j) ray) \<and>
        (\<forall>j<k. 0 < rayIntersects (sps ! j) ray \<longrightarrow>
           rayIntersects (sps ! k) ray < rayIntersects (sps ! j) ray))"

section \<open>The shader\<close>

text \<open>
  \<open>rayColor\<close>. Reading \<open>.color\<close> of \<open>spheres[castResult.sphereIndex]\<close> when the index is
  undefined or outside the array, and calling \<open>.dot\<close> on a \<open>null\<close> normal, throw a
  \<open>TypeError\<close> in the source: they are the \<open>Inl\<close> results here.
\<close>

datatype error = TypeError

definition rayColor :: "Ray \<Rightarrow> error + Vec3" where
  "rayColor ray =
     (let castResult = traceRay ray
      in if t castResult < 0 then Inr (backgroundColour ray)
         else
           (case sphereIndex castResult of
              None \<Rightarrow> Inl TypeError
            | Some idx \<Rightarrow>
                if idx < 0 \<or> int (length spheres) \<le> idx then Inl TypeError
                else
                  (case normal castResult of
                     None \<Rightarrow> Inl TypeError
                   | Some nrm \<Rightarrow>
                       (let albedo = color (spheres ! nat idx);
                            diffuse = diffuseLighting nrm;
                            color0 = scale albedo diffuse;
                            viewDirection =
                              normalised (subtract (origin ray) (pointAt ray (t castResult)));
                            specular = specularLighting nrm viewDirection;
                            color1 = add color0 (scale albedo specular);
                            shadowRay =
                              \<lparr>origin = add (pointAt ray (t castResult)) (scale nrm 0.01),
                               direction = negLightDirection\<rparr>;
                            shadowCastResult = traceRay shadowRay;
                            color2 = (if t shadowCastResult > 0 then scale color1 0.4 else color1);
                            color3 = (if idx = 2 then scale color2 1.2 else color2)
                        in Inr color3))))"

section \<open>The frame driver\<close>

text \<open>
  \<open>render\<close> sets \<open>ctx.fillStyle\<close> to \<open>rgb(r, g, b)\<close> and calls \<open>ctx.fillRect(x, y, 1, 1)\<close>
  for each pixel. The canvas is modelled as the list of these commands in the order they
  are issued; a command records the pixel and the three numbers written into the style.
  The pixel coordinates are called \<open>px\<close> and \<open>py\<close> (\<open>x\<close> and \<open>y\<close> are the fields of
  \<open>Vec3\<close>). An exception of \<open>rayColor\<close> ends \<open>render\<close>: the model returns the canvas
  drawn so far and the error.
\<close>

record Fill =
  fillX :: int
  fillY :: int
  fillR :: real
  fillG :: real
  fillB :: real

text \<open>The body of the inner loop, for the pixel \<open>(px, py)\<close>.\<close>

definition render_pixel :: "int \<Rightarrow> int \<Rightarrow> int \<Rightarrow> int \<Rightarrow> error + Fill" where
  "render_pixel width height px py =
     (let viewportWidth = 2;
          viewportHeight = 2;
          focalLength = 1;
          orig = \<lparr>x = 0, y = 0, z = 0\<rparr>;
          u = (of_int px / of_int width) * viewportWidth - viewportWidth / 2;
          v = (of_int py / of_int height) * viewportHeight - viewportHeight / 2;
          dir = normalised \<lparr>x = u, y = - v, z = - focalLength\<rparr>;
          ray = \<lparr>origin = orig, direction = dir\<rparr>
      in case rayColor ray of
           Inl e \<Rightarrow> Inl e
         | Inr col \<Rightarrow>
             (let r = min 1 (max 0 (x col)) * 255;
                  g = min 1 (max 0 (y col)) * 255;
                  b = min 1 (max 0 (z col)) * 255
              in Inr \<lparr>fillX = px, fillY = py, fillR = r, fillG = g, fillB = b\<rparr>))"

function render_x :: "int \<Rightarrow> int \<Rightarrow> int \<Rightarrow> int \<Rightarrow> Fill list \<Rightarrow> Fill list \<times> error option" where
  "render_x width height py px canvas =
     (if px < width then
        (case render_pixel width height px py of
           Inl e \<Rightarrow> (canvas, Some e)
         | Inr f \<Rightarrow> render_x width height py (px + 1) (canvas @ [f]))
      else (canvas, None))"
  by pat_completeness auto
termination
  by (relation "measure (\<lambda>(width, height, py, px, canvas). nat (width - px))") auto

declare render_x.simps [simp del]

function render_y :: "int \<Rightarrow> int \<Rightarrow> int \<Rightarrow> Fill list \<Rightarrow> Fill list \<times> error option" where
  "render_y width height py canvas =
     (if py < height then
        (case render_x width height py 0 canvas of
           (canvas', Some e) \<Rightarrow> (canvas', Some e)
         | (canvas', None) \<Rightarrow> render_y width height (py + 1) canvas')
      else (canvas, None))"
  by pat_completeness auto
termination
  by (relation "measure (\<lambda>(width, height, py, canvas). nat (height - py))") auto

declare render_y.simps [simp del]

definition render :: "int \<Rightarrow> int \<Rightarrow> Fill list \<times> error option" where
  "render width height = render_y width height 0 []"

section \<open>Vector algebra\<close>

lemma dot_commute: "dot a b = dot b a"
  by (simp add: dot_def mult.commute)

lemma add_subtract_cancel: "subtract (add a b) b = a"
  by (simp add: add_def subtract_def)

lemma dot_self_nonneg: "0 \<le> dot v v"
  by (simp add: dot_def)

lemma dot_self_zero_iff: "dot v v = 0 \<longleftrightarrow> x v = 0 \<and> y v = 0 \<and> z v = 0"
proof -
  have "dot v v = (x v)\<^sup>2 + (y v)\<^sup>2 + (z v)\<^sup>2"
    by (simp add: dot_def power2_eq_square)
  then show ?thesis
    by (simp add: sum_power2_eq_zero_iff add_nonneg_eq_0_iff)
qed

lemma dot_zero_right: "dot d d = 0 \<Longrightarrow> dot v d = 0"
  using dot_self_zero_iff [of d] by (simp add: dot_def)

section \<open>The intersection of a ray and a sphere\<close>

lemma discriminant_pos_a_pos:
  assumes "(2 * dot oc d) * (2 * dot oc d) - 4 * dot d d * c > 0"
  shows "dot d d > 0"
proof (rule ccontr)
  assume "\<not> dot d d > 0"
  with dot_self_nonneg [of d] have z: "dot d d = 0" by simp
  then have "dot oc d = 0" by (rule dot_zero_right)
  with z assms show False by simp
qed

lemma min_roots:
  fixes a b s :: real
  assumes "0 < a" "0 \<le> s"
  shows "min ((- b - s) / (2 * a)) ((- b + s) / (2 * a)) = (- b - s) / (2 * a)"
proof -
  have "(- b - s) / (2 * a) \<le> (- b + s) / (2 * a)"
    using assms by (simp add: divide_le_cancel)
  then show ?thesis by simp
qed

lemma quadratic_root:
  fixes a b c s :: real
  assumes "a \<noteq> 0" and "s * s = b * b - 4 * a * c"
  shows "a * ((- b - s) / (2 * a))\<^sup>2 + b * ((- b - s) / (2 * a)) + c = 0"
proof -
  have "a * ((- b - s) / (2 * a))\<^sup>2 + b * ((- b - s) / (2 * a)) + c
      = ((- b - s)\<^sup>2 + 2 * b * (- b - s) + 4 * a * c) / (4 * a)"
    using assms(1) by (simp add: field_simps power2_eq_square)
  also have "(- b - s)\<^sup>2 + 2 * b * (- b - s) + 4 * a * c = s * s - (b * b - 4 * a * c)"
    by (simp add: algebra_simps power2_eq_square)
  also have "\<dots> = 0" using assms(2) by simp
  finally show ?thesis by simp
qed

lemma cauchy_schwarz3: "(dot u v)\<^sup>2 \<le> dot u u * dot v v"
proof -
  have "dot u u * dot v v - (dot u v)\<^sup>2 =
      (x u * y v - y u * x v)\<^sup>2 + (x u * z v - z u * x v)\<^sup>2 + (y u * z v - z u * y v)\<^sup>2"
    by (simp add: dot_def algebra_simps power2_eq_square)
  also have "0 \<le> \<dots>" by simp
  finally show ?thesis by simp
qed

lemma normalised_unit:
  assumes "dot v v \<noteq> 0"
  shows "dot (normalised v) (normalised v) = 1"
proof -
  define s where "s = (x v)\<^sup>2 + (y v)\<^sup>2 + (z v)\<^sup>2"
  define len where "len = sqrt s"
  have s: "s = dot v v" by (simp add: s_def dot_def power2_eq_square)
  have "0 \<le> s" by (simp add: s_def)
  with assms s have pos: "0 < s" by simp
  then have len: "len * len = s" "len \<noteq> 0" by (simp_all add: len_def)
  have "normalised v = \<lparr>x = x v / len, y = y v / len, z = z v / len\<rparr>"
    by (simp add: normalised_def Let_def len_def s_def)
  then have "dot (normalised v) (normalised v) =
      (x v * x v + y v * y v + z v * z v) / (len * len)"
    by (simp add: dot_def add_divide_distrib)
  also have "\<dots> = s / s" by (simp add: len s_def power2_eq_square)
  also have "\<dots> = 1" using pos by simp
  finally show ?thesis .
qed

lemma dot_pointAt_center:
  "dot (subtract (pointAt ray d) (center sphere)) (subtract (pointAt ray d) (center sphere)) =
     dot (direction ray) (direction ray) * d\<^sup>2
     + 2 * dot (subtract (origin ray) (center sphere)) (direction ray) * d
     + dot (subtract (origin ray) (center sphere)) (subtract (origin ray) (center sphere))"
  by (simp add: dot_def subtract_def pointAt_def algebra_simps power2_eq_square)

lemma rayIntersects_discriminant:
  "rayIntersects sphere ray =
     (if 0 < discriminant sphere ray then
        (- (2 * dot (subtract (origin ray) (center sphere)) (direction ray))
           - sqrt (discriminant sphere ray)) / (2 * dot (direction ray) (direction ray))
      else - 1)"
proof -
  define oc where "oc = subtract (origin ray) (center sphere)"
  define a where "a = dot (direction ray) (direction ray)"
  define b where "b = 2 * dot oc (direction ray)"
  define D where "D = discriminant sphere ray"
  have unfolded: "rayIntersects sphere ray =
      (if D > 0 then min ((- b - sqrt D) / (2 * a)) ((- b + sqrt D) / (2 * a)) else - 1)"
    unfolding rayIntersects_def discriminant_def Let_def oc_def a_def b_def D_def
    by (rule refl)
  have "rayIntersects sphere ray = (if 0 < D then (- b - sqrt D) / (2 * a) else - 1)"
  proof (cases "D > 0")
    case True
    then have "0 < a"
      using discriminant_pos_a_pos [of oc "direction ray" "dot oc oc - radius sphere * radius sphere"]
      by (simp add: D_def discriminant_def Let_def a_def b_def oc_def)
    then have "min ((- b - sqrt D) / (2 * a)) ((- b + sqrt D) / (2 * a)) = (- b - sqrt D) / (2 * a)"
      using True by (intro min_roots) simp_all
    with True show ?thesis
      by (simp add: unfolded)
  next
    case False
    then show ?thesis by (simp add: unfolded)
  qed
  then show ?thesis
    by (simp add: oc_def a_def b_def D_def)
qed

lemma rayIntersects_pos_discriminant:
  "0 < rayIntersects sphere ray \<Longrightarrow> 0 < discriminant sphere ray"
  by (simp add: rayIntersects_discriminant split: if_splits)

text \<open>
  C1. For every ray and sphere, \<open>rayIntersects\<close> computes \<open>a\<close>, \<open>b\<close>, \<open>c\<close> and the
  discriminant \<open>D = b\<^sup>2 - 4ac\<close> as the quadratic of the intersection; it returns \<open>-1\<close> when
  \<open>D \<le> 0\<close> and the smaller root \<open>(-b - \<surd>D) / (2a)\<close> when \<open>D > 0\<close>, whatever the sign of
  that root.
\<close>

theorem rayIntersects_quadratic:
  "rayIntersects sphere ray =
     (let oc = subtract (origin ray) (center sphere);
          a = dot (direction ray) (direction ray);
          b = 2 * dot oc (direction ray);
          c = dot oc oc - (radius sphere)\<^sup>2;
          D = b\<^sup>2 - 4 * a * c
      in if D \<le> 0 then - 1 else (- b - sqrt D) / (2 * a))"
proof -
  have "discriminant sphere ray =
      (2 * dot (subtract (origin ray) (center sphere)) (direction ray))\<^sup>2
      - 4 * dot (direction ray) (direction ray)
        * (dot (subtract (origin ray) (center sphere)) (subtract (origin ray) (center sphere))
           - (radius sphere)\<^sup>2)"
    by (simp add: discriminant_def Let_def power2_eq_square)
  then show ?thesis
    by (simp add: rayIntersects_discriminant Let_def not_le [symmetric])
qed

lemma discriminant_pos_direction:
  assumes "0 < discriminant sphere ray"
  shows "0 < dot (direction ray) (direction ray)"
  using assms
    discriminant_pos_a_pos [of "subtract (origin ray) (center sphere)" "direction ray"
      "dot (subtract (origin ray) (center sphere)) (subtract (origin ray) (center sphere))
        - radius sphere * radius sphere"]
  by (simp add: discriminant_def Let_def)


lemma hit_on_sphere:
  assumes "0 < discriminant sphere ray"
  shows "dot (subtract (pointAt ray (rayIntersects sphere ray)) (center sphere))
             (subtract (pointAt ray (rayIntersects sphere ray)) (center sphere))
         = radius sphere * radius sphere"
proof -
  define oc where "oc = subtract (origin ray) (center sphere)"
  define a where "a = dot (direction ray) (direction ray)"
  define b where "b = 2 * dot oc (direction ray)"
  define c where "c = dot oc oc - radius sphere * radius sphere"
  define s where "s = sqrt (discriminant sphere ray)"
  have D: "discriminant sphere ray = b * b - 4 * a * c"
    by (simp add: discriminant_def Let_def oc_def a_def b_def c_def)
  have a: "a \<noteq> 0"
    using discriminant_pos_direction [OF assms] by (simp add: a_def)
  have s: "s * s = b * b - 4 * a * c"
    using assms by (simp add: s_def D [symmetric])
  have r: "rayIntersects sphere ray = (- b - s) / (2 * a)"
    using assms by (simp add: rayIntersects_discriminant s_def a_def b_def oc_def)
  have "dot (subtract (pointAt ray (rayIntersects sphere ray)) (center sphere))
            (subtract (pointAt ray (rayIntersects sphere ray)) (center sphere))
        = a * ((- b - s) / (2 * a))\<^sup>2 + b * ((- b - s) / (2 * a)) + c
          + radius sphere * radius sphere"
    by (simp add: dot_pointAt_center r a_def b_def c_def oc_def)
  also have "\<dots> = radius sphere * radius sphere"
    using quadratic_root [OF a s] by simp
  finally show ?thesis .
qed

lemma discriminant_pos_radius:
  assumes "0 < discriminant sphere ray"
  shows "radius sphere \<noteq> 0"
proof
  assume r: "radius sphere = 0"
  define oc where "oc = subtract (origin ray) (center sphere)"
  have "discriminant sphere ray =
      4 * ((dot oc (direction ray))\<^sup>2 - dot oc oc * dot (direction ray) (direction ray))"
    by (simp add: discriminant_def Let_def oc_def r power2_eq_square algebra_simps)
  also have "\<dots> \<le> 0"
    using cauchy_schwarz3 [of oc "direction ray"] by simp
  finally show False using assms by simp
qed

lemma hitNormal_unit:
  assumes "0 < rayIntersects sphere ray"
  shows "dot (hitNormal sphere ray) (hitNormal sphere ray) = 1"
proof -
  have D: "0 < discriminant sphere ray"
    using assms by (rule rayIntersects_pos_discriminant)
  have "dot (subtract (pointAt ray (rayIntersects sphere ray)) (center sphere))
            (subtract (pointAt ray (rayIntersects sphere ray)) (center sphere)) \<noteq> 0"
    using discriminant_pos_radius [OF D] by (simp add: hit_on_sphere [OF D])
  then show ?thesis
    unfolding hitNormal_def by (rule normalised_unit)
qed

section \<open>The nearest-hit search\<close>

lemma trace_inv_init: "trace_inv sps ray 0 (None, - 1, None)"
  by (simp add: trace_inv_def)

lemma trace_inv_update:
  assumes inv: "trace_inv sps ray i (tb, idx, nrm)"
    and pos: "0 < rayIntersects (sps ! i) ray"
    and better: "case tb of None \<Rightarrow> True | Some v \<Rightarrow> rayIntersects (sps ! i) ray < v"
  shows "trace_inv sps ray (Suc i)
           (Some (rayIntersects (sps ! i) ray), int i, Some (hitNormal (sps ! i) ray))"
proof -
  have "\<forall>j<i. 0 < rayIntersects (sps ! j) ray \<longrightarrow>
          rayIntersects (sps ! i) ray < rayIntersects (sps ! j) ray"
    using inv better by (fastforce simp: trace_inv_def)
  then have "\<forall>j<Suc i. 0 < rayIntersects (sps ! j) ray \<longrightarrow>
          rayIntersects (sps ! i) ray \<le> rayIntersects (sps ! j) ray"
    by (auto simp: less_Suc_eq)
  with \<open>\<forall>j<i. _\<close> pos show ?thesis
    unfolding trace_inv_def by (intro disjI2 exI [of _ i]) simp
qed

lemma trace_inv_keep:
  assumes inv: "trace_inv sps ray i (tb, idx, nrm)"
    and worse: "\<not> (0 < rayIntersects (sps ! i) ray \<and>
                  (case tb of None \<Rightarrow> True | Some v \<Rightarrow> rayIntersects (sps ! i) ray < v))"
  shows "trace_inv sps ray (Suc i) (tb, idx, nrm)"
  using inv worse unfolding trace_inv_def
  by (elim disjE exE conjE) (auto simp: less_Suc_eq)

lemma traceRay_loop_done:
  "\<not> i < length sps \<Longrightarrow> traceRay_loop sps ray i st = st"
  by (cases st) (simp add: traceRay_loop.simps [of sps ray i])

lemma traceRay_loop_update:
  "i < length sps \<Longrightarrow> 0 < rayIntersects (sps ! i) ray \<Longrightarrow>
   (case tb of None \<Rightarrow> True | Some v \<Rightarrow> rayIntersects (sps ! i) ray < v) \<Longrightarrow>
   traceRay_loop sps ray i (tb, idx, nrm) =
     traceRay_loop sps ray (i + 1)
       (Some (rayIntersects (sps ! i) ray), int i, Some (hitNormal (sps ! i) ray))"
  by (subst traceRay_loop.simps) (simp add: Let_def hitNormal_def)

lemma traceRay_loop_keep:
  "i < length sps \<Longrightarrow>
   \<not> (0 < rayIntersects (sps ! i) ray \<and>
      (case tb of None \<Rightarrow> True | Some v \<Rightarrow> rayIntersects (sps ! i) ray < v)) \<Longrightarrow>
   traceRay_loop sps ray i (tb, idx, nrm) = traceRay_loop sps ray (i + 1) (tb, idx, nrm)"
  by (subst traceRay_loop.simps) (auto simp add: Let_def)

lemma traceRay_loop_inv:
  "trace_inv sps ray i st \<Longrightarrow> i \<le> length sps \<Longrightarrow>
     trace_inv sps ray (length sps) (traceRay_loop sps ray i st)"
proof (induction sps ray i st rule: traceRay_loop.induct)
  case (1 sps ray i tb idx nrm)
  show ?case
  proof (cases "i < length sps")
    case False
    with "1.prems" show ?thesis by (simp add: traceRay_loop_done)
  next
    case True
    show ?thesis
    proof (cases "0 < rayIntersects (sps ! i) ray \<and>
                  (case tb of None \<Rightarrow> True | Some v \<Rightarrow> rayIntersects (sps ! i) ray < v)")
      case hit: True
      then have "trace_inv sps ray (Suc i)
          (Some (rayIntersects (sps ! i) ray), int i, Some (hitNormal (sps ! i) ray))"
        using trace_inv_update [OF "1.prems"(1)] by simp
      then have "trace_inv sps ray (length sps)
          (traceRay_loop sps ray (i + 1)
             (Some (rayIntersects (sps ! i) ray), int i, Some (hitNormal (sps ! i) ray)))"
        using "1.IH"(1) [OF True refl refl _ refl refl] hit True
        by (simp add: hitNormal_def)
      with True hit show ?thesis
        by (simp add: traceRay_loop_update)
    next
      case miss: False
      then have "trace_inv sps ray (Suc i) (tb, idx, nrm)"
        using trace_inv_keep [OF "1.prems"(1)] by simp
      then have "trace_inv sps ray (length sps) (traceRay_loop sps ray (i + 1) (tb, idx, nrm))"
        using "1.IH"(2) [OF True refl refl] miss True by simp
      with True miss show ?thesis
        by (simp add: traceRay_loop_keep)
    qed
  qed
qed

lemma traceRay_on_cases:
  "(traceRay_on sps ray = \<lparr>t = - 1, sphereIndex = None, normal = None\<rparr> \<and>
      (\<forall>j<length sps. rayIntersects (sps ! j) ray \<le> 0)) \<or>
   (\<exists>k<length sps.
      traceRay_on sps ray =
        \<lparr>t = rayIntersects (sps ! k) ray, sphereIndex = Some (int k),
         normal = Some (hitNormal (sps ! k) ray)\<rparr> \<and>
      0 < rayIntersects (sps ! k) ray \<and>
      (\<forall>j<length sps. 0 < rayIntersects (sps ! j) ray \<longrightarrow>
         rayIntersects (sps ! k) ray \<le> rayIntersects (sps ! j) ray) \<and>
      (\<forall>j<k. 0 < rayIntersects (sps ! j) ray \<longrightarrow>
         rayIntersects (sps ! k) ray < rayIntersects (sps ! j) ray))"
proof -
  define st where "st = traceRay_loop sps ray 0 (None, - 1, None)"
  have inv: "trace_inv sps ray (length sps) st"
    unfolding st_def by (rule traceRay_loop_inv [OF trace_inv_init]) simp
  have res: "traceRay_on sps ray = traceRay_return st"
    by (simp add: traceRay_on_def st_def)
  from inv show ?thesis
    unfolding trace_inv_def
  proof (elim disjE exE conjE)
    assume "st = (None, - 1, None)" "\<forall>j<length sps. rayIntersects (sps ! j) ray \<le> 0"
    then show ?thesis
      by (simp add: res traceRay_return_def)
  next
    fix k
    assume k: "k < length sps"
      and st: "st = (Some (rayIntersects (sps ! k) ray), int k, Some (hitNormal (sps ! k) ray))"
      and rest: "0 < rayIntersects (sps ! k) ray"
        "\<forall>j<length sps. 0 < rayIntersects (sps ! j) ray \<longrightarrow>
           rayIntersects (sps ! k) ray \<le> rayIntersects (sps ! j) ray"
        "\<forall>j<k. 0 < rayIntersects (sps ! j) ray \<longrightarrow>
           rayIntersects (sps ! k) ray < rayIntersects (sps ! j) ray"
    have "traceRay_on sps ray =
        \<lparr>t = rayIntersects (sps ! k) ray, sphereIndex = Some (int k),
         normal = Some (hitNormal (sps ! k) ray)\<rparr>"
      by (simp add: res st traceRay_return_def)
    with k rest show ?thesis by blast
  qed
qed

text \<open>
  C2. For every ray and scene, the nearest-hit search returns the miss \<open>{t: -1}\<close> when no
  sphere has a positive intersection; otherwise it returns the least positive intersection,
  the index of the first sphere in scene order that attains it (on a tie the earlier
  sphere wins), and the normal \<open>normalised (hitPoint - center)\<close> of that sphere, which has
  length 1. \<open>traceRay\<close> is this search on the scene \<open>spheres\<close>.
\<close>

theorem traceRay_nearest_hit:
  "((\<forall>j<length sps. rayIntersects (sps ! j) ray \<le> 0) \<longrightarrow>
      traceRay_on sps ray = \<lparr>t = - 1, sphereIndex = None, normal = None\<rparr>) \<and>
   ((\<exists>j<length sps. 0 < rayIntersects (sps ! j) ray) \<longrightarrow>
      (\<exists>k<length sps.
         0 < rayIntersects (sps ! k) ray \<and>
         (\<forall>j<length sps. 0 < rayIntersects (sps ! j) ray \<longrightarrow>
            rayIntersects (sps ! k) ray \<le> rayIntersects (sps ! j) ray) \<and>
         (\<forall>j<k. rayIntersects (sps ! j) ray \<noteq> rayIntersects (sps ! k) ray) \<and>
         traceRay_on sps ray =
           \<lparr>t = rayIntersects (sps ! k) ray, sphereIndex = Some (int k),
            normal = Some (normalised (subtract (pointAt ray (rayIntersects (sps ! k) ray))
                                                (center (sps ! k))))\<rparr> \<and>
         dot (normalised (subtract (pointAt ray (rayIntersects (sps ! k) ray)) (center (sps ! k))))
             (normalised (subtract (pointAt ray (rayIntersects (sps ! k) ray)) (center (sps ! k))))
           = 1)) \<and>
   traceRay ray = traceRay_on spheres ray"
proof (intro conjI impI)
  assume none: "\<forall>j<length sps. rayIntersects (sps ! j) ray \<le> 0"
  from traceRay_on_cases [of sps ray]
  show "traceRay_on sps ray = \<lparr>t = - 1, sphereIndex = None, normal = None\<rparr>"
  proof (elim disjE exE conjE)
    fix k assume "k < length sps" "0 < rayIntersects (sps ! k) ray"
    with none show ?thesis by force
  qed
next
  assume some: "\<exists>j<length sps. 0 < rayIntersects (sps ! j) ray"
  from traceRay_on_cases [of sps ray]
  show "\<exists>k<length sps.
         0 < rayIntersects (sps ! k) ray \<and>
         (\<forall>j<length sps. 0 < rayIntersects (sps ! j) ray \<longrightarrow>
            rayIntersects (sps ! k) ray \<le> rayIntersects (sps ! j) ray) \<and>
         (\<forall>j<k. rayIntersects (sps ! j) ray \<noteq> rayIntersects (sps ! k) ray) \<and>
         traceRay_on sps ray =
           \<lparr>t = rayIntersects (sps ! k) ray, sphereIndex = Some (int k),
            normal = Some (normalised (subtract (pointAt ray (rayIntersects (sps ! k) ray))
                                                (center (sps ! k))))\<rparr> \<and>
         dot (normalised (subtract (pointAt ray (rayIntersects (sps ! k) ray)) (center (sps ! k))))
             (normalised (subtract (pointAt ray (rayIntersects (sps ! k) ray)) (center (sps ! k))))
           = 1"
  proof (elim disjE exE conjE)
    assume "\<forall>j<length sps. rayIntersects (sps ! j) ray \<le> 0"
    with some show ?thesis by force
  next
    fix k
    assume k: "k < length sps"
      and res: "traceRay_on sps ray =
        \<lparr>t = rayIntersects (sps ! k) ray, sphereIndex = Some (int k),
         normal = Some (hitNormal (sps ! k) ray)\<rparr>"
      and pos: "0 < rayIntersects (sps ! k) ray"
      and least: "\<forall>j<length sps. 0 < rayIntersects (sps ! j) ray \<longrightarrow>
           rayIntersects (sps ! k) ray \<le> rayIntersects (sps ! j) ray"
      and first: "\<forall>j<k. 0 < rayIntersects (sps ! j) ray \<longrightarrow>
           rayIntersects (sps ! k) ray < rayIntersects (sps ! j) ray"
    have "\<forall>j<k. rayIntersects (sps ! j) ray \<noteq> rayIntersects (sps ! k) ray"
    proof (intro allI impI)
      fix j assume "j < k"
      with first pos show "rayIntersects (sps ! j) ray \<noteq> rayIntersects (sps ! k) ray"
        by (cases "0 < rayIntersects (sps ! j) ray") auto
    qed
    moreover note hitNormal_unit [OF pos]
    ultimately show ?thesis
      using k res pos least unfolding hitNormal_def by blast
  qed
next
  show "traceRay ray = traceRay_on spheres ray"
    by (simp add: traceRay_def)
qed

subsection \<open>A tie between two spheres, and a ray that misses the scene\<close>

lemma sqrt_576: "sqrt 576 = 24"
  by (rule real_sqrt_unique) simp_all

lemma upRay_intersections:
  "rayIntersects (spheres ! 0) \<lparr>origin = \<lparr>x = 0, y = 0, z = 0\<rparr>, direction = \<lparr>x = 0, y = 1, z = 0\<rparr>\<rparr> = - 1"
  "rayIntersects (spheres ! 1) \<lparr>origin = \<lparr>x = 0, y = 0, z = 0\<rparr>, direction = \<lparr>x = 0, y = 1, z = 0\<rparr>\<rparr> = - 1"
  "rayIntersects (spheres ! 2) \<lparr>origin = \<lparr>x = 0, y = 0, z = 0\<rparr>, direction = \<lparr>x = 0, y = 1, z = 0\<rparr>\<rparr> = - 26"
  by (simp_all add: rayIntersects_discriminant discriminant_def spheres_def subtract_def dot_def
      sqrt_576)

lemma nth_less_3: "j < 3 \<Longrightarrow> j = 0 \<or> j = 1 \<or> j = (2::nat)"
  by arith

lemma upRay_no_hit:
  "\<forall>j<length spheres.
     rayIntersects (spheres ! j) \<lparr>origin = \<lparr>x = 0, y = 0, z = 0\<rparr>, direction = \<lparr>x = 0, y = 1, z = 0\<rparr>\<rparr> \<le> 0"
proof (intro allI impI)
  fix j assume "j < length spheres"
  then have "j = 0 \<or> j = 1 \<or> j = 2"
    by (intro nth_less_3) (simp add: spheres_def)
  then show "rayIntersects (spheres ! j)
      \<lparr>origin = \<lparr>x = 0, y = 0, z = 0\<rparr>, direction = \<lparr>x = 0, y = 1, z = 0\<rparr>\<rparr> \<le> 0"
    using upRay_intersections by auto
qed

lemma tie_intersections:
  "rayIntersects \<lparr>center = \<lparr>x = 0, y = 0, z = - 9\<rparr>, radius = 1, color = c0\<rparr>
     \<lparr>origin = \<lparr>x = 0, y = 0, z = 0\<rparr>, direction = \<lparr>x = 0, y = 0, z = - 1\<rparr>\<rparr> = 8"
  "rayIntersects \<lparr>center = \<lparr>x = 0, y = 0, z = - 5\<rparr>, radius = 1, color = c1\<rparr>
     \<lparr>origin = \<lparr>x = 0, y = 0, z = 0\<rparr>, direction = \<lparr>x = 0, y = 0, z = - 1\<rparr>\<rparr> = 4"
  by (simp_all add: rayIntersects_discriminant discriminant_def subtract_def dot_def)

theorem traceRay_nearest_hit_witness:
  "traceRay_on
     [\<lparr>center = \<lparr>x = 0, y = 0, z = - 9\<rparr>, radius = 1, color = \<lparr>x = 1, y = 0, z = 0\<rparr>\<rparr>,
      \<lparr>center = \<lparr>x = 0, y = 0, z = - 5\<rparr>, radius = 1, color = \<lparr>x = 0, y = 1, z = 0\<rparr>\<rparr>,
      \<lparr>center = \<lparr>x = 0, y = 0, z = - 5\<rparr>, radius = 1, color = \<lparr>x = 0, y = 0, z = 1\<rparr>\<rparr>]
     \<lparr>origin = \<lparr>x = 0, y = 0, z = 0\<rparr>, direction = \<lparr>x = 0, y = 0, z = - 1\<rparr>\<rparr>
   = \<lparr>t = 4, sphereIndex = Some 1, normal = Some \<lparr>x = 0, y = 0, z = 1\<rparr>\<rparr> \<and>
   traceRay \<lparr>origin = \<lparr>x = 0, y = 0, z = 0\<rparr>, direction = \<lparr>x = 0, y = 1, z = 0\<rparr>\<rparr>
   = \<lparr>t = - 1, sphereIndex = None, normal = None\<rparr>"
proof
  define sps where "sps =
     [\<lparr>center = \<lparr>x = 0, y = 0, z = - 9\<rparr>, radius = 1, color = \<lparr>x = 1, y = 0, z = 0\<rparr>\<rparr>,
      \<lparr>center = \<lparr>x = 0, y = 0, z = - 5\<rparr>, radius = 1, color = \<lparr>x = 0, y = 1, z = 0\<rparr>\<rparr>,
      \<lparr>center = \<lparr>x = 0, y = 0, z = - 5\<rparr>, radius = 1, color = \<lparr>x = 0, y = 0, z = 1\<rparr>\<rparr>]"
  define ray where "ray = \<lparr>origin = \<lparr>x = 0, y = 0, z = 0\<rparr>, direction = \<lparr>x = 0, y = 0, z = - 1\<rparr>\<rparr>"
  have ri: "rayIntersects (sps ! 0) ray = 8" "rayIntersects (sps ! 1) ray = 4"
    "rayIntersects (sps ! 2) ray = 4"
    by (simp_all add: sps_def ray_def tie_intersections)
  have len: "length sps = 3" by (simp add: sps_def)
  have "\<exists>j<length sps. 0 < rayIntersects (sps ! j) ray"
    using ri(1) len by (intro exI [of _ 0]) simp
  with traceRay_nearest_hit [of sps ray]
  obtain k where k: "k < length sps"
    and least: "\<forall>j<length sps. 0 < rayIntersects (sps ! j) ray \<longrightarrow>
            rayIntersects (sps ! k) ray \<le> rayIntersects (sps ! j) ray"
    and first: "\<forall>j<k. rayIntersects (sps ! j) ray \<noteq> rayIntersects (sps ! k) ray"
    and res: "traceRay_on sps ray =
           \<lparr>t = rayIntersects (sps ! k) ray, sphereIndex = Some (int k),
            normal = Some (normalised (subtract (pointAt ray (rayIntersects (sps ! k) ray))
                                                (center (sps ! k))))\<rparr>"
    by blast
  from k len have "k = 0 \<or> k = 1 \<or> k = 2" by (intro nth_less_3) simp
  moreover have "k \<noteq> 0"
  proof
    assume "k = 0"
    with least [rule_format, of 1] ri len show False by simp
  qed
  moreover have "k \<noteq> 2"
  proof
    assume "k = 2"
    with first [rule_format, of 1] ri show False by simp
  qed
  ultimately have "k = 1" by blast
  have "traceRay_on sps ray = \<lparr>t = 4, sphereIndex = Some 1, normal = Some \<lparr>x = 0, y = 0, z = 1\<rparr>\<rparr>"
    unfolding res \<open>k = 1\<close> ri
    by (simp add: sps_def ray_def pointAt_def subtract_def normalised_def)
  then show "traceRay_on
     [\<lparr>center = \<lparr>x = 0, y = 0, z = - 9\<rparr>, radius = 1, color = \<lparr>x = 1, y = 0, z = 0\<rparr>\<rparr>,
      \<lparr>center = \<lparr>x = 0, y = 0, z = - 5\<rparr>, radius = 1, color = \<lparr>x = 0, y = 1, z = 0\<rparr>\<rparr>,
      \<lparr>center = \<lparr>x = 0, y = 0, z = - 5\<rparr>, radius = 1, color = \<lparr>x = 0, y = 0, z = 1\<rparr>\<rparr>]
     \<lparr>origin = \<lparr>x = 0, y = 0, z = 0\<rparr>, direction = \<lparr>x = 0, y = 0, z = - 1\<rparr>\<rparr>
   = \<lparr>t = 4, sphereIndex = Some 1, normal = Some \<lparr>x = 0, y = 0, z = 1\<rparr>\<rparr>"
    by (simp add: sps_def ray_def)
next
  show "traceRay \<lparr>origin = \<lparr>x = 0, y = 0, z = 0\<rparr>, direction = \<lparr>x = 0, y = 1, z = 0\<rparr>\<rparr>
      = \<lparr>t = - 1, sphereIndex = None, normal = None\<rparr>"
    using traceRay_nearest_hit
      [of spheres "\<lparr>origin = \<lparr>x = 0, y = 0, z = 0\<rparr>, direction = \<lparr>x = 0, y = 1, z = 0\<rparr>\<rparr>"]
      upRay_no_hit
    by simp
qed

section \<open>The shader on a hit\<close>

lemma traceRay_cases:
  "(traceRay ray = \<lparr>t = - 1, sphereIndex = None, normal = None\<rparr> \<and>
      (\<forall>j<length spheres. rayIntersects (spheres ! j) ray \<le> 0)) \<or>
   (\<exists>k<length spheres.
      traceRay ray =
        \<lparr>t = rayIntersects (spheres ! k) ray, sphereIndex = Some (int k),
         normal = Some (hitNormal (spheres ! k) ray)\<rparr> \<and>
      0 < rayIntersects (spheres ! k) ray)"
  using traceRay_on_cases [of spheres ray] unfolding traceRay_def by blast

lemma rayColor_miss:
  "t (traceRay ray) < 0 \<Longrightarrow> rayColor ray = Inr (backgroundColour ray)"
  by (simp add: rayColor_def Let_def)

lemma rayColor_hit:
  assumes res: "traceRay ray = \<lparr>t = d, sphereIndex = Some (int k), normal = Some n\<rparr>"
    and d: "\<not> d < 0" and k: "k < length spheres"
  shows "rayColor ray =
     Inr (let albedo = color (spheres ! k);
              diffuse = diffuseLighting n;
              viewDirection = normalised (subtract (origin ray) (pointAt ray d));
              specular = specularLighting n viewDirection;
              lit = add (scale albedo diffuse) (scale albedo specular);
              shadowRay = \<lparr>origin = add (pointAt ray d) (scale n 0.01),
                           direction = negLightDirection\<rparr>;
              shaded = (if t (traceRay shadowRay) > 0 then scale lit 0.4 else lit)
          in if k = 2 then scale shaded 1.2 else shaded)"
proof -
  have "int k = 2 \<longleftrightarrow> k = 2" by auto
  then show ?thesis
    using d k by (simp add: rayColor_def res Let_def)
qed

lemma rayColor_total: "\<exists>c. rayColor ray = Inr c"
  using traceRay_cases [of ray]
proof (elim disjE exE conjE)
  assume "traceRay ray = \<lparr>t = - 1, sphereIndex = None, normal = None\<rparr>"
  then show ?thesis by (simp add: rayColor_miss)
next
  fix k
  assume "k < length spheres"
    "traceRay ray = \<lparr>t = rayIntersects (spheres ! k) ray, sphereIndex = Some (int k),
         normal = Some (hitNormal (spheres ! k) ray)\<rparr>"
    "0 < rayIntersects (spheres ! k) ray"
  then show ?thesis
    using rayColor_hit [of ray "rayIntersects (spheres ! k) ray" k "hitNormal (spheres ! k) ray"]
    by simp
qed

text \<open>
  C10. For every ray, the result of \<open>traceRay\<close> is either the miss (\<open>t = -1\<close>, no sphere
  index) or a hit with \<open>t > 0\<close>, a sphere index \<open>i\<close> with \<open>0 \<le> i < length spheres\<close> and a
  normal. So the test \<open>t < 0\<close> of \<open>rayColor\<close> holds exactly for the miss, and \<open>rayColor\<close>
  never fails on its lookup \<open>spheres[sphereIndex]\<close>: it returns a colour for every ray.
\<close>

theorem traceRay_result_safe:
  "((t (traceRay ray) = - 1 \<and> sphereIndex (traceRay ray) = None) \<or>
    (0 < t (traceRay ray) \<and>
     (\<exists>i. sphereIndex (traceRay ray) = Some i \<and> 0 \<le> i \<and> i < int (length spheres)) \<and>
     (\<exists>n. normal (traceRay ray) = Some n))) \<and>
   ((t (traceRay ray) < 0) = (sphereIndex (traceRay ray) = None)) \<and>
   (\<exists>c. rayColor ray = Inr c)"
proof -
  from traceRay_cases [of ray]
  have "((t (traceRay ray) = - 1 \<and> sphereIndex (traceRay ray) = None) \<or>
    (0 < t (traceRay ray) \<and>
     (\<exists>i. sphereIndex (traceRay ray) = Some i \<and> 0 \<le> i \<and> i < int (length spheres)) \<and>
     (\<exists>n. normal (traceRay ray) = Some n))) \<and>
   ((t (traceRay ray) < 0) = (sphereIndex (traceRay ray) = None))"
  proof (elim disjE exE conjE)
    assume "traceRay ray = \<lparr>t = - 1, sphereIndex = None, normal = None\<rparr>"
    then show ?thesis by simp
  next
    fix k
    assume "k < length spheres"
      "traceRay ray = \<lparr>t = rayIntersects (spheres ! k) ray, sphereIndex = Some (int k),
           normal = Some (hitNormal (spheres ! k) ray)\<rparr>"
      "0 < rayIntersects (spheres ! k) ray"
    then show ?thesis by simp
  qed
  with rayColor_total [of ray] show ?thesis by blast
qed

lemma traceRay_hit_cases:
  assumes "\<not> t (traceRay ray) < 0"
  obtains k where "k < length spheres"
    and "traceRay ray =
        \<lparr>t = rayIntersects (spheres ! k) ray, sphereIndex = Some (int k),
         normal = Some (hitNormal (spheres ! k) ray)\<rparr>"
    and "0 < rayIntersects (spheres ! k) ray"
  using traceRay_cases [of ray] assms by auto

text \<open>
  C3. For every ray that hits a sphere, \<open>rayColor\<close> first adds \<open>albedo * diffuse\<close> and
  \<open>albedo * specular\<close>; it then multiplies the sum by 0.4 when the shadow ray, cast from the
  hit point moved by 0.01 along the normal in the direction \<open>negLightDirection\<close>, has
  \<open>t > 0\<close>; and after that it multiplies by 1.2 when the sphere has index 2. A shadowed hit
  on sphere 2 gives \<open>((albedo * diffuse + albedo * specular) * 0.4) * 1.2\<close>.
\<close>

theorem rayColor_shading_order:
  "\<not> t (traceRay ray) < 0 \<longrightarrow>
     (\<exists>k n. k < length spheres \<and> sphereIndex (traceRay ray) = Some (int k) \<and>
        normal (traceRay ray) = Some n \<and>
        (let hitPoint = pointAt ray (t (traceRay ray));
             albedo = color (spheres ! k);
             diffuse = diffuseLighting n;
             specular = specularLighting n (normalised (subtract (origin ray) hitPoint));
             lit = add (scale albedo diffuse) (scale albedo specular);
             shadowRay = \<lparr>origin = add hitPoint (scale n 0.01), direction = negLightDirection\<rparr>;
             shadowed = (0 < t (traceRay shadowRay));
             shaded = (if shadowed then scale lit 0.4 else lit)
         in rayColor ray = Inr (if k = 2 then scale shaded 1.2 else shaded) \<and>
            (shadowed \<and> k = 2 \<longrightarrow> rayColor ray = Inr (scale (scale lit 0.4) 1.2))))"
proof
  assume "\<not> t (traceRay ray) < 0"
  then obtain k where k: "k < length spheres"
    and res: "traceRay ray =
        \<lparr>t = rayIntersects (spheres ! k) ray, sphereIndex = Some (int k),
         normal = Some (hitNormal (spheres ! k) ray)\<rparr>"
    and pos: "0 < rayIntersects (spheres ! k) ray"
    by (rule traceRay_hit_cases)
  have "rayColor ray =
     Inr (let albedo = color (spheres ! k);
              diffuse = diffuseLighting (hitNormal (spheres ! k) ray);
              viewDirection = normalised (subtract (origin ray)
                (pointAt ray (rayIntersects (spheres ! k) ray)));
              specular = specularLighting (hitNormal (spheres ! k) ray) viewDirection;
              lit = add (scale albedo diffuse) (scale albedo specular);
              shadowRay = \<lparr>origin = add (pointAt ray (rayIntersects (spheres ! k) ray))
                             (scale (hitNormal (spheres ! k) ray) 0.01),
                           direction = negLightDirection\<rparr>;
              shaded = (if t (traceRay shadowRay) > 0 then scale lit 0.4 else lit)
          in if k = 2 then scale shaded 1.2 else shaded)"
    using pos k by (intro rayColor_hit [OF res]) simp_all
  then show "\<exists>k n. k < length spheres \<and> sphereIndex (traceRay ray) = Some (int k) \<and>
        normal (traceRay ray) = Some n \<and>
        (let hitPoint = pointAt ray (t (traceRay ray));
             albedo = color (spheres ! k);
             diffuse = diffuseLighting n;
             specular = specularLighting n (normalised (subtract (origin ray) hitPoint));
             lit = add (scale albedo diffuse) (scale albedo specular);
             shadowRay = \<lparr>origin = add hitPoint (scale n 0.01), direction = negLightDirection\<rparr>;
             shadowed = (0 < t (traceRay shadowRay));
             shaded = (if shadowed then scale lit 0.4 else lit)
         in rayColor ray = Inr (if k = 2 then scale shaded 1.2 else shaded) \<and>
            (shadowed \<and> k = 2 \<longrightarrow> rayColor ray = Inr (scale (scale lit 0.4) 1.2)))"
    using k by (intro exI [of _ k] exI [of _ "hitNormal (spheres ! k) ray"])
      (auto simp add: res Let_def)
qed

lemma scale_one: "scale v 1 = v"
  by (simp add: scale_def)

lemma scale_scale: "scale (scale v a) b = scale v (a * b)"
  by (simp add: scale_def mult.assoc)

lemma view_offset_nonzero:
  assumes "0 < rayIntersects sphere ray"
  shows "dot (subtract (origin ray) (pointAt ray (rayIntersects sphere ray)))
             (subtract (origin ray) (pointAt ray (rayIntersects sphere ray))) \<noteq> 0"
proof -
  have d: "0 < dot (direction ray) (direction ray)"
    using assms by (intro discriminant_pos_direction rayIntersects_pos_discriminant)
  have "dot (subtract (origin ray) (pointAt ray (rayIntersects sphere ray)))
            (subtract (origin ray) (pointAt ray (rayIntersects sphere ray)))
        = (rayIntersects sphere ray)\<^sup>2 * dot (direction ray) (direction ray)"
    by (simp add: dot_def subtract_def pointAt_def algebra_simps power2_eq_square)
  with d assms show ?thesis by simp
qed

text \<open>
  C4. For every hit, the specular term is \<open>max (dot reflection viewDirection) 0 ^ 7 * 0.8\<close>,
  where \<open>reflection = normal * (2 * dot normal lightDirection) - lightDirection\<close> and
  \<open>viewDirection\<close> is the unit vector from the hit point to the origin of the ray; the
  colour is \<open>albedo * diffuse + albedo * specular\<close>, the specular term scaled by the albedo
  of the sphere, times the factors of the shadow and of sphere 2.
\<close>

theorem rayColor_specular:
  "\<not> t (traceRay ray) < 0 \<longrightarrow>
     (\<exists>k n. k < length spheres \<and> sphereIndex (traceRay ray) = Some (int k) \<and>
        normal (traceRay ray) = Some n \<and>
        (let hitPoint = pointAt ray (t (traceRay ray));
             viewDirection = normalised (subtract (origin ray) hitPoint);
             reflection = subtract (scale n (2 * dot n lightDirection)) lightDirection;
             specular = (max (dot reflection viewDirection) 0) ^ 7 * 0.8;
             albedo = color (spheres ! k);
             shadowRay = \<lparr>origin = add hitPoint (scale n 0.01), direction = negLightDirection\<rparr>;
             m = (if 0 < t (traceRay shadowRay) then 0.4 else 1) * (if k = 2 then 1.2 else 1)
         in dot viewDirection viewDirection = 1 \<and>
            (\<exists>l>0. subtract (origin ray) hitPoint = scale viewDirection l) \<and>
            specularLighting n viewDirection = specular \<and>
            rayColor ray =
              Inr (scale (add (scale albedo (diffuseLighting n)) (scale albedo specular)) m)))"
proof
  assume "\<not> t (traceRay ray) < 0"
  then obtain k where k: "k < length spheres"
    and res: "traceRay ray =
        \<lparr>t = rayIntersects (spheres ! k) ray, sphereIndex = Some (int k),
         normal = Some (hitNormal (spheres ! k) ray)\<rparr>"
    and pos: "0 < rayIntersects (spheres ! k) ray"
    by (rule traceRay_hit_cases)
  define n where "n = hitNormal (spheres ! k) ray"
  define w where "w = subtract (origin ray) (pointAt ray (rayIntersects (spheres ! k) ray))"
  define view where "view = normalised w"
  define l where "l = sqrt ((x w)\<^sup>2 + (y w)\<^sup>2 + (z w)\<^sup>2)"
  have w: "dot w w \<noteq> 0"
    unfolding w_def using pos by (rule view_offset_nonzero)
  then have unit: "dot view view = 1"
    unfolding view_def by (rule normalised_unit)
  have "0 < dot w w"
    using w dot_self_nonneg [of w] by simp
  then have "0 < (x w)\<^sup>2 + (y w)\<^sup>2 + (z w)\<^sup>2"
    by (simp add: dot_def power2_eq_square)
  then have l: "0 < l" by (simp add: l_def)
  have towards: "w = scale view l"
    using l by (simp add: view_def normalised_def Let_def l_def [symmetric] scale_def)
  have spec: "specularLighting n view =
      (max (dot (subtract (scale n (2 * dot n lightDirection)) lightDirection) view) 0) ^ 7 * 0.8"
    by (simp add: specularLighting_def Let_def)
  have "rayColor ray =
     Inr (let albedo = color (spheres ! k);
              diffuse = diffuseLighting n;
              viewDirection = normalised (subtract (origin ray)
                (pointAt ray (rayIntersects (spheres ! k) ray)));
              specular = specularLighting n viewDirection;
              lit = add (scale albedo diffuse) (scale albedo specular);
              shadowRay = \<lparr>origin = add (pointAt ray (rayIntersects (spheres ! k) ray))
                             (scale n 0.01),
                           direction = negLightDirection\<rparr>;
              shaded = (if t (traceRay shadowRay) > 0 then scale lit 0.4 else lit)
          in if k = 2 then scale shaded 1.2 else shaded)"
    unfolding n_def using pos k by (intro rayColor_hit [OF res]) simp_all
  then have col: "rayColor ray =
      Inr (scale (add (scale (color (spheres ! k)) (diffuseLighting n))
                      (scale (color (spheres ! k)) (specularLighting n view)))
             ((if 0 < t (traceRay \<lparr>origin = add (pointAt ray (rayIntersects (spheres ! k) ray))
                             (scale n 0.01), direction = negLightDirection\<rparr>) then 0.4 else 1)
              * (if k = 2 then 1.2 else 1)))"
    by (simp add: Let_def view_def w_def scale_one scale_scale)
  show "\<exists>k n. k < length spheres \<and> sphereIndex (traceRay ray) = Some (int k) \<and>
        normal (traceRay ray) = Some n \<and>
        (let hitPoint = pointAt ray (t (traceRay ray));
             viewDirection = normalised (subtract (origin ray) hitPoint);
             reflection = subtract (scale n (2 * dot n lightDirection)) lightDirection;
             specular = (max (dot reflection viewDirection) 0) ^ 7 * 0.8;
             albedo = color (spheres ! k);
             shadowRay = \<lparr>origin = add hitPoint (scale n 0.01), direction = negLightDirection\<rparr>;
             m = (if 0 < t (traceRay shadowRay) then 0.4 else 1) * (if k = 2 then 1.2 else 1)
         in dot viewDirection viewDirection = 1 \<and>
            (\<exists>l>0. subtract (origin ray) hitPoint = scale viewDirection l) \<and>
            specularLighting n viewDirection = specular \<and>
            rayColor ray =
              Inr (scale (add (scale albedo (diffuseLighting n)) (scale albedo specular)) m))"
  proof (intro exI [of _ k] exI [of _ n] conjI)
    show "k < length spheres" by (rule k)
    show "sphereIndex (traceRay ray) = Some (int k)" by (simp add: res)
    show "normal (traceRay ray) = Some n" by (simp add: res n_def)
    show "let hitPoint = pointAt ray (t (traceRay ray));
             viewDirection = normalised (subtract (origin ray) hitPoint);
             reflection = subtract (scale n (2 * dot n lightDirection)) lightDirection;
             specular = (max (dot reflection viewDirection) 0) ^ 7 * 0.8;
             albedo = color (spheres ! k);
             shadowRay = \<lparr>origin = add hitPoint (scale n 0.01), direction = negLightDirection\<rparr>;
             m = (if 0 < t (traceRay shadowRay) then 0.4 else 1) * (if k = 2 then 1.2 else 1)
         in dot viewDirection viewDirection = 1 \<and>
            (\<exists>l>0. subtract (origin ray) hitPoint = scale viewDirection l) \<and>
            specularLighting n viewDirection = specular \<and>
            rayColor ray =
              Inr (scale (add (scale albedo (diffuseLighting n)) (scale albedo specular)) m)"
      unfolding Let_def
    proof (intro conjI)
      have tt: "t (traceRay ray) = rayIntersects (spheres ! k) ray" by (simp add: res)
      show "dot (normalised (subtract (origin ray) (pointAt ray (t (traceRay ray)))))
          (normalised (subtract (origin ray) (pointAt ray (t (traceRay ray))))) = 1"
        using unit by (simp add: tt view_def w_def)
      show "\<exists>l>0. subtract (origin ray) (pointAt ray (t (traceRay ray))) =
          scale (normalised (subtract (origin ray) (pointAt ray (t (traceRay ray))))) l"
        using l towards unfolding tt view_def w_def by blast
      show "specularLighting n (normalised (subtract (origin ray) (pointAt ray (t (traceRay ray)))))
          = max (dot (subtract (scale n (2 * dot n lightDirection)) lightDirection)
                (normalised (subtract (origin ray) (pointAt ray (t (traceRay ray)))))) 0 ^ 7 * 0.8"
        using spec by (simp add: tt view_def w_def)
      show "rayColor ray =
          Inr (scale (add (scale (color (spheres ! k)) (diffuseLighting n))
             (scale (color (spheres ! k))
               (max (dot (subtract (scale n (2 * dot n lightDirection)) lightDirection)
                  (normalised (subtract (origin ray) (pointAt ray (t (traceRay ray)))))) 0 ^ 7
                * 0.8)))
           ((if 0 < t (traceRay \<lparr>origin = add (pointAt ray (t (traceRay ray))) (scale n 0.01),
                      direction = negLightDirection\<rparr>) then 0.4 else 1)
            * (if k = 2 then 1.2 else 1)))"
        using col spec unfolding tt view_def w_def by simp
    qed
  qed
qed

subsection \<open>A shadowed hit on the ground sphere\<close>

lemma rayIntersects_pos:
  assumes D: "0 < discriminant sphere ray"
    and facing: "dot (subtract (origin ray) (center sphere)) (direction ray) < 0"
    and outside: "radius sphere * radius sphere
        < dot (subtract (origin ray) (center sphere)) (subtract (origin ray) (center sphere))"
  shows "0 < rayIntersects sphere ray"
proof -
  define oc where "oc = subtract (origin ray) (center sphere)"
  define a where "a = dot (direction ray) (direction ray)"
  define b where "b = 2 * dot oc (direction ray)"
  define c where "c = dot oc oc - radius sphere * radius sphere"
  have a: "0 < a" using discriminant_pos_direction [OF D] by (simp add: a_def)
  have b: "b < 0" using facing by (simp add: b_def oc_def)
  have c: "0 < c" using outside by (simp add: c_def oc_def)
  have Deq: "discriminant sphere ray = b * b - 4 * a * c"
    by (simp add: discriminant_def Let_def oc_def a_def b_def c_def)
  have "0 < a * c" using a c by simp
  then have "discriminant sphere ray < b\<^sup>2"
    by (simp add: Deq power2_eq_square)
  then have "sqrt (discriminant sphere ray) < sqrt (b\<^sup>2)"
    by (simp only: real_sqrt_less_iff)
  also have "sqrt (b\<^sup>2) = - b" using b by simp
  finally have "0 < - b - sqrt (discriminant sphere ray)" by simp
  then have "0 < (- b - sqrt (discriminant sphere ray)) / (2 * a)"
    using a by simp
  then show ?thesis
    using D by (simp add: rayIntersects_discriminant b_def oc_def a_def)
qed

lemma light_length: "0 < sqrt (103 / 20 :: real)" "sqrt (103 / 20 :: real) * sqrt (103 / 20) = 103 / 20"
  by simp_all

lemma lightDirection_eq:
  "lightDirection =
     \<lparr>x = - (11 / 10) / sqrt (103 / 20), y = - (13 / 10) / sqrt (103 / 20),
      z = - (15 / 10) / sqrt (103 / 20)\<rparr>"
proof -
  have "(- (11 / 10))\<^sup>2 + (- (13 / 10))\<^sup>2 + (- (15 / 10))\<^sup>2 = (103 / 20 :: real)"
    by (simp add: power2_eq_square)
  then show ?thesis
    by (simp add: lightDirection_def normalised_def Let_def)
qed

lemma negLightDirection_eq:
  "negLightDirection =
     \<lparr>x = (11 / 10) / sqrt (103 / 20), y = (13 / 10) / sqrt (103 / 20),
      z = (15 / 10) / sqrt (103 / 20)\<rparr>"
  by (simp add: negLightDirection_def lightDirection_eq)

lemma negLightDirection_unit: "dot negLightDirection negLightDirection = 1"
proof -
  have "dot negLightDirection negLightDirection =
      ((11 / 10) * (11 / 10) + (13 / 10) * (13 / 10) + (15 / 10) * (15 / 10))
        / (sqrt (103 / 20) * sqrt (103 / 20))"
    unfolding negLightDirection_eq dot_def by (simp add: add_divide_distrib)
  also have "\<dots> = 1" by (simp only: light_length) simp
  finally show ?thesis .
qed

lemma traceRay_only:
  assumes k: "k < length spheres" and pos: "0 < rayIntersects (spheres ! k) ray"
    and others: "\<forall>j<length spheres. j \<noteq> k \<longrightarrow> rayIntersects (spheres ! j) ray \<le> 0"
  shows "traceRay ray =
     \<lparr>t = rayIntersects (spheres ! k) ray, sphereIndex = Some (int k),
      normal = Some (hitNormal (spheres ! k) ray)\<rparr>"
  using traceRay_cases [of ray]
proof (elim disjE exE conjE)
  assume "\<forall>j<length spheres. rayIntersects (spheres ! j) ray \<le> 0"
  with k pos show ?thesis by force
next
  fix i
  assume i: "i < length spheres" "0 < rayIntersects (spheres ! i) ray"
    and res: "traceRay ray =
      \<lparr>t = rayIntersects (spheres ! i) ray, sphereIndex = Some (int i),
       normal = Some (hitNormal (spheres ! i) ray)\<rparr>"
  have "i = k"
  proof (rule ccontr)
    assume "i \<noteq> k"
    with others i show False by force
  qed
  with res show ?thesis by simp
qed

lemma traceRay_some_hit:
  assumes "k < length spheres" and "0 < rayIntersects (spheres ! k) ray"
  shows "0 < t (traceRay ray)"
  using traceRay_cases [of ray] assms by force

lemma sqrt_676: "sqrt 676 = 26"
  by (rule real_sqrt_unique) simp_all

lemma sqrt_169: "sqrt 169 = 13"
  by (rule real_sqrt_unique) simp_all

lemma downRay_intersections:
  "rayIntersects (spheres ! 0) \<lparr>origin = \<lparr>x = 0, y = 0, z = - 5\<rparr>, direction = \<lparr>x = 0, y = - 1, z = 0\<rparr>\<rparr> = - 1"
  "rayIntersects (spheres ! 1) \<lparr>origin = \<lparr>x = 0, y = 0, z = - 5\<rparr>, direction = \<lparr>x = 0, y = - 1, z = 0\<rparr>\<rparr> = - 1"
  "rayIntersects (spheres ! 2) \<lparr>origin = \<lparr>x = 0, y = 0, z = - 5\<rparr>, direction = \<lparr>x = 0, y = - 1, z = 0\<rparr>\<rparr> = 1"
  by (simp_all add: rayIntersects_discriminant discriminant_def spheres_def subtract_def dot_def
      sqrt_676)

lemma downRay_trace:
  "traceRay \<lparr>origin = \<lparr>x = 0, y = 0, z = - 5\<rparr>, direction = \<lparr>x = 0, y = - 1, z = 0\<rparr>\<rparr>
     = \<lparr>t = 1, sphereIndex = Some 2, normal = Some \<lparr>x = 0, y = 1, z = 0\<rparr>\<rparr>"
proof -
  define ray where "ray = \<lparr>origin = \<lparr>x = 0, y = 0, z = - 5\<rparr>, direction = \<lparr>x = 0, y = - 1, z = 0\<rparr>\<rparr>"
  have ri: "rayIntersects (spheres ! 0) ray = - 1" "rayIntersects (spheres ! 1) ray = - 1"
    "rayIntersects (spheres ! 2) ray = 1"
    unfolding ray_def by (rule downRay_intersections)+
  have len: "length spheres = 3" by (simp add: spheres_def)
  have "\<forall>j<length spheres. j \<noteq> 2 \<longrightarrow> rayIntersects (spheres ! j) ray \<le> 0"
  proof (intro allI impI)
    fix j assume "j < length spheres" "j \<noteq> 2"
    then have "j = 0 \<or> j = 1" using len by arith
    then show "rayIntersects (spheres ! j) ray \<le> 0" using ri by auto
  qed
  then have "traceRay ray =
     \<lparr>t = rayIntersects (spheres ! 2) ray, sphereIndex = Some (int 2),
      normal = Some (hitNormal (spheres ! 2) ray)\<rparr>"
    using len ri by (intro traceRay_only) simp_all
  moreover have "hitNormal (spheres ! 2) ray = \<lparr>x = 0, y = 1, z = 0\<rparr>"
    by (simp add: hitNormal_def ri)
      (simp add: ray_def spheres_def pointAt_def subtract_def normalised_def sqrt_169)
  ultimately show ?thesis unfolding ray_def by (simp add: downRay_intersections)
qed

lemma downRay_shadow_hits:
  "0 < rayIntersects (spheres ! 0)
     \<lparr>origin = \<lparr>x = 0, y = - (99 / 100), z = - 5\<rparr>, direction = negLightDirection\<rparr>"
proof (rule rayIntersects_pos)
  define s :: real where "s = sqrt (103 / 20)"
  define sr where "sr = \<lparr>origin = \<lparr>x = 0, y = - (99 / 100), z = - 5\<rparr>, direction = negLightDirection\<rparr>"
  have s: "0 < s" "s * s = 103 / 20" by (simp_all add: s_def)
  have oc: "subtract (origin sr) (center (spheres ! 0)) = \<lparr>x = 0, y = - (129 / 100), z = - (3 / 2)\<rparr>"
    by (simp add: sr_def spheres_def subtract_def)
  have dt: "dot \<lparr>x = 0, y = - (129 / 100), z = - (3 / 2)\<rparr> negLightDirection = - (3927 / 1000) / s"
    by (simp add: negLightDirection_eq dot_def s_def [symmetric] field_simps)
  have "discriminant (spheres ! 0) sr
      = 4 * ((3927 / 1000) * (3927 / 1000) / (s * s)) - 4 * (29141 / 10000)"
    unfolding discriminant_def Let_def oc
    by (simp add: sr_def dt negLightDirection_unit)
      (simp add: spheres_def dot_def)
  also have "\<dots> > 0" unfolding s by simp
  finally show "0 < discriminant (spheres ! 0) sr" unfolding sr_def .
  show "dot (subtract (origin sr) (center (spheres ! 0))) (direction sr) < 0"
    unfolding oc using s by (simp add: sr_def dt)
  show "radius (spheres ! 0) * radius (spheres ! 0)
      < dot (subtract (origin sr) (center (spheres ! 0))) (subtract (origin sr) (center (spheres ! 0)))"
    unfolding oc by (simp add: spheres_def dot_def)
qed


theorem rayColor_shading_order_witness:
  "\<not> t (traceRay \<lparr>origin = \<lparr>x = 0, y = 0, z = - 5\<rparr>, direction = \<lparr>x = 0, y = - 1, z = 0\<rparr>\<rparr>) < 0 \<and>
   rayColor \<lparr>origin = \<lparr>x = 0, y = 0, z = - 5\<rparr>, direction = \<lparr>x = 0, y = - 1, z = 0\<rparr>\<rparr> =
     Inr (scale (scale
       (add (scale (color (spheres ! 2)) (diffuseLighting \<lparr>x = 0, y = 1, z = 0\<rparr>))
            (scale (color (spheres ! 2))
               (specularLighting \<lparr>x = 0, y = 1, z = 0\<rparr> \<lparr>x = 0, y = 1, z = 0\<rparr>)))
       0.4) 1.2)"
proof -
  define ray where "ray = \<lparr>origin = \<lparr>x = 0, y = 0, z = - 5\<rparr>, direction = \<lparr>x = 0, y = - 1, z = 0\<rparr>\<rparr>"
  have res: "traceRay ray = \<lparr>t = 1, sphereIndex = Some 2, normal = Some \<lparr>x = 0, y = 1, z = 0\<rparr>\<rparr>"
    unfolding ray_def by (rule downRay_trace)
  then have hit: "\<not> t (traceRay ray) < 0" by simp
  have hp: "add (pointAt ray 1) (scale \<lparr>x = 0, y = 1, z = 0\<rparr> 0.01) = \<lparr>x = 0, y = - (99 / 100), z = - 5\<rparr>"
    by (simp add: ray_def pointAt_def add_def scale_def)
  have view: "normalised (subtract (origin ray) (pointAt ray 1)) = \<lparr>x = 0, y = 1, z = 0\<rparr>"
    by (simp add: ray_def pointAt_def subtract_def normalised_def)
  have shadowed: "0 < t (traceRay \<lparr>origin = add (pointAt ray 1) (scale \<lparr>x = 0, y = 1, z = 0\<rparr> 0.01),
      direction = negLightDirection\<rparr>)"
    unfolding hp using downRay_shadow_hits
    by (intro traceRay_some_hit [of 0]) (simp_all add: spheres_def)
  from rayColor_shading_order [of ray] hit
  obtain k n where kn: "sphereIndex (traceRay ray) = Some (int k)" "normal (traceRay ray) = Some n"
    and col: "let hitPoint = pointAt ray (t (traceRay ray));
             albedo = color (spheres ! k);
             diffuse = diffuseLighting n;
             specular = specularLighting n (normalised (subtract (origin ray) hitPoint));
             lit = add (scale albedo diffuse) (scale albedo specular);
             shadowRay = \<lparr>origin = add hitPoint (scale n 0.01), direction = negLightDirection\<rparr>;
             shadowed = (0 < t (traceRay shadowRay));
             shaded = (if shadowed then scale lit 0.4 else lit)
         in rayColor ray = Inr (if k = 2 then scale shaded 1.2 else shaded) \<and>
            (shadowed \<and> k = 2 \<longrightarrow> rayColor ray = Inr (scale (scale lit 0.4) 1.2))"
    by blast
  from kn have k: "k = 2" and n: "n = \<lparr>x = 0, y = 1, z = 0\<rparr>"
    by (simp_all add: res)
  from col shadowed have "rayColor ray =
     Inr (scale (scale
       (add (scale (color (spheres ! 2)) (diffuseLighting \<lparr>x = 0, y = 1, z = 0\<rparr>))
            (scale (color (spheres ! 2))
               (specularLighting \<lparr>x = 0, y = 1, z = 0\<rparr> \<lparr>x = 0, y = 1, z = 0\<rparr>)))
       0.4) 1.2)"
    unfolding k n Let_def by (simp add: res view)
  with hit show ?thesis unfolding ray_def by simp
qed

subsection \<open>A hit on the first sphere\<close>

lemma frontRay_intersections:
  "rayIntersects (spheres ! 0) \<lparr>origin = \<lparr>x = 0, y = 3 / 10, z = 0\<rparr>, direction = \<lparr>x = 0, y = 0, z = - 1\<rparr>\<rparr> = 5 / 2"
  "rayIntersects (spheres ! 1) \<lparr>origin = \<lparr>x = 0, y = 3 / 10, z = 0\<rparr>, direction = \<lparr>x = 0, y = 0, z = - 1\<rparr>\<rparr> = - 1"
  "rayIntersects (spheres ! 2) \<lparr>origin = \<lparr>x = 0, y = 3 / 10, z = 0\<rparr>, direction = \<lparr>x = 0, y = 0, z = - 1\<rparr>\<rparr> = - 1"
  by (simp_all add: rayIntersects_discriminant discriminant_def spheres_def subtract_def dot_def)

lemma frontRay_trace:
  "traceRay \<lparr>origin = \<lparr>x = 0, y = 3 / 10, z = 0\<rparr>, direction = \<lparr>x = 0, y = 0, z = - 1\<rparr>\<rparr>
     = \<lparr>t = 5 / 2, sphereIndex = Some 0, normal = Some \<lparr>x = 0, y = 0, z = 1\<rparr>\<rparr>"
proof -
  define ray where "ray = \<lparr>origin = \<lparr>x = 0, y = 3 / 10, z = 0\<rparr>, direction = \<lparr>x = 0, y = 0, z = - 1\<rparr>\<rparr>"
  have ri: "rayIntersects (spheres ! 0) ray = 5 / 2" "rayIntersects (spheres ! 1) ray = - 1"
    "rayIntersects (spheres ! 2) ray = - 1"
    unfolding ray_def by (rule frontRay_intersections)+
  have len: "length spheres = 3" by (simp add: spheres_def)
  have "\<forall>j<length spheres. j \<noteq> 0 \<longrightarrow> rayIntersects (spheres ! j) ray \<le> 0"
  proof (intro allI impI)
    fix j assume "j < length spheres" "j \<noteq> 0"
    then have "j = 1 \<or> j = 2" using len by arith
    then show "rayIntersects (spheres ! j) ray \<le> 0" using ri by auto
  qed
  then have "traceRay ray =
     \<lparr>t = rayIntersects (spheres ! 0) ray, sphereIndex = Some (int 0),
      normal = Some (hitNormal (spheres ! 0) ray)\<rparr>"
    using len ri by (intro traceRay_only) simp_all
  moreover have "hitNormal (spheres ! 0) ray = \<lparr>x = 0, y = 0, z = 1\<rparr>"
    by (simp add: hitNormal_def ri)
      (simp add: ray_def spheres_def pointAt_def subtract_def normalised_def)
  ultimately show ?thesis unfolding ray_def by (simp add: frontRay_intersections)
qed

theorem rayColor_specular_witness:
  "\<not> t (traceRay \<lparr>origin = \<lparr>x = 0, y = 3 / 10, z = 0\<rparr>, direction = \<lparr>x = 0, y = 0, z = - 1\<rparr>\<rparr>) < 0 \<and>
   dot \<lparr>x = 0, y = 0, z = 1\<rparr> \<lparr>x = 0, y = 0, z = 1\<rparr> = 1 \<and>
   (\<exists>m. rayColor \<lparr>origin = \<lparr>x = 0, y = 3 / 10, z = 0\<rparr>, direction = \<lparr>x = 0, y = 0, z = - 1\<rparr>\<rparr> =
     Inr (scale
       (add (scale \<lparr>x = 1, y = 0, z = 0\<rparr> (diffuseLighting \<lparr>x = 0, y = 0, z = 1\<rparr>))
            (scale \<lparr>x = 1, y = 0, z = 0\<rparr>
               (max (dot (subtract (scale \<lparr>x = 0, y = 0, z = 1\<rparr>
                                     (2 * dot \<lparr>x = 0, y = 0, z = 1\<rparr> lightDirection))
                                   lightDirection)
                         \<lparr>x = 0, y = 0, z = 1\<rparr>) 0 ^ 7 * 0.8)))
       m))"
proof -
  define ray where "ray = \<lparr>origin = \<lparr>x = 0, y = 3 / 10, z = 0\<rparr>, direction = \<lparr>x = 0, y = 0, z = - 1\<rparr>\<rparr>"
  have res: "traceRay ray = \<lparr>t = 5 / 2, sphereIndex = Some 0, normal = Some \<lparr>x = 0, y = 0, z = 1\<rparr>\<rparr>"
    unfolding ray_def by (rule frontRay_trace)
  then have hit: "\<not> t (traceRay ray) < 0" by simp
  have view: "normalised (subtract (origin ray) (pointAt ray (5 / 2))) = \<lparr>x = 0, y = 0, z = 1\<rparr>"
    by (simp add: ray_def pointAt_def subtract_def normalised_def)
  have albedo: "color (spheres ! 0) = \<lparr>x = 1, y = 0, z = 0\<rparr>"
    by (simp add: spheres_def)
  from rayColor_specular [of ray] hit
  obtain k n where kn: "sphereIndex (traceRay ray) = Some (int k)" "normal (traceRay ray) = Some n"
    and col: "let hitPoint = pointAt ray (t (traceRay ray));
             viewDirection = normalised (subtract (origin ray) hitPoint);
             reflection = subtract (scale n (2 * dot n lightDirection)) lightDirection;
             specular = (max (dot reflection viewDirection) 0) ^ 7 * 0.8;
             albedo = color (spheres ! k);
             shadowRay = \<lparr>origin = add hitPoint (scale n 0.01), direction = negLightDirection\<rparr>;
             m = (if 0 < t (traceRay shadowRay) then 0.4 else 1) * (if k = 2 then 1.2 else 1)
         in dot viewDirection viewDirection = 1 \<and>
            (\<exists>l>0. subtract (origin ray) hitPoint = scale viewDirection l) \<and>
            specularLighting n viewDirection = specular \<and>
            rayColor ray =
              Inr (scale (add (scale albedo (diffuseLighting n)) (scale albedo specular)) m)"
    by blast
  from kn have k: "k = 0" and n: "n = \<lparr>x = 0, y = 0, z = 1\<rparr>"
    by (simp_all add: res)
  from col have "dot \<lparr>x = 0, y = 0, z = 1\<rparr> \<lparr>x = 0, y = 0, z = 1\<rparr> = 1 \<and>
    (\<exists>m. rayColor ray =
     Inr (scale
       (add (scale \<lparr>x = 1, y = 0, z = 0\<rparr> (diffuseLighting \<lparr>x = 0, y = 0, z = 1\<rparr>))
            (scale \<lparr>x = 1, y = 0, z = 0\<rparr>
               (max (dot (subtract (scale \<lparr>x = 0, y = 0, z = 1\<rparr>
                                     (2 * dot \<lparr>x = 0, y = 0, z = 1\<rparr> lightDirection))
                                   lightDirection)
                         \<lparr>x = 0, y = 0, z = 1\<rparr>) 0 ^ 7 * 0.8)))
       m))"
    unfolding k n Let_def res CastResult.simps view albedo by blast
  with hit show ?thesis unfolding ray_def by simp
qed

section \<open>The background\<close>

lemma traceRay_none:
  assumes "\<forall>j<length spheres. rayIntersects (spheres ! j) ray \<le> 0"
  shows "traceRay ray = \<lparr>t = - 1, sphereIndex = None, normal = None\<rparr>"
  using traceRay_cases [of ray] assms by force

lemma all_spheres:
  assumes "P 0" "P 1" "P 2"
  shows "\<forall>j<length spheres. P j"
proof (intro allI impI)
  fix j assume "j < length spheres"
  then have "j = 0 \<or> j = 1 \<or> j = 2"
    by (intro nth_less_3) (simp add: spheres_def)
  with assms show "P j" by auto
qed

lemma backgroundColour_gradient:
  "backgroundColour ray =
     (let v = arccos (y (normalised (direction ray))) / pi
      in add (scale \<lparr>x = 0.5, y = 0.9, z = 1\<rparr> (1 - v)) (scale \<lparr>x = 0.3, y = 0.3, z = 0.5\<rparr> v))"
  by (simp add: backgroundColour_def Let_def)

lemma normalised_up: "normalised \<lparr>x = 0, y = 1, z = 0\<rparr> = \<lparr>x = 0, y = 1, z = 0\<rparr>"
  by (simp add: normalised_def)

lemma normalised_down: "normalised \<lparr>x = 0, y = - 1, z = 0\<rparr> = \<lparr>x = 0, y = - 1, z = 0\<rparr>"
  by (simp add: normalised_def)

lemma backgroundColour_up:
  "direction ray = \<lparr>x = 0, y = 1, z = 0\<rparr> \<Longrightarrow> backgroundColour ray = \<lparr>x = 0.5, y = 0.9, z = 1\<rparr>"
  by (simp add: backgroundColour_gradient normalised_up scale_def add_def)

lemma backgroundColour_down:
  "direction ray = \<lparr>x = 0, y = - 1, z = 0\<rparr> \<Longrightarrow> backgroundColour ray = \<lparr>x = 0.3, y = 0.3, z = 0.5\<rparr>"
  by (simp add: backgroundColour_gradient normalised_down scale_def add_def)

text \<open>
  C5. For every ray (of non-zero direction) that misses all spheres, \<open>rayColor\<close> returns
  \<open>sky * (1 - v) + ground * v\<close> with \<open>v = theta / \<pi>\<close>, \<open>theta\<close> the arc cosine of the \<open>y\<close>
  component of the normalised direction, \<open>sky = (0.5, 0.9, 1.0)\<close> and
  \<open>ground = (0.3, 0.3, 0.5)\<close>. A missing ray of direction \<open>(0, 1, 0)\<close> gets exactly the sky
  colour and one of direction \<open>(0, -1, 0)\<close> exactly the ground colour.
\<close>

theorem rayColor_background_gradient:
  "(dot (direction ray) (direction ray) \<noteq> 0 \<and> t (traceRay ray) < 0 \<longrightarrow>
      rayColor ray =
        Inr (let v = arccos (y (normalised (direction ray))) / pi
             in add (scale \<lparr>x = 0.5, y = 0.9, z = 1\<rparr> (1 - v))
                    (scale \<lparr>x = 0.3, y = 0.3, z = 0.5\<rparr> v))) \<and>
   (direction ray = \<lparr>x = 0, y = 1, z = 0\<rparr> \<and> t (traceRay ray) < 0 \<longrightarrow>
      rayColor ray = Inr \<lparr>x = 0.5, y = 0.9, z = 1\<rparr>) \<and>
   (direction ray = \<lparr>x = 0, y = - 1, z = 0\<rparr> \<and> t (traceRay ray) < 0 \<longrightarrow>
      rayColor ray = Inr \<lparr>x = 0.3, y = 0.3, z = 0.5\<rparr>)"
  by (simp add: rayColor_miss backgroundColour_up backgroundColour_down)
    (simp add: backgroundColour_gradient)

lemma sqrt_25: "sqrt 25 = 5"
  by (rule real_sqrt_unique) simp_all

lemma sqrt_100: "sqrt 100 = 10"
  by (rule real_sqrt_unique) simp_all

lemma farDownRay_intersections:
  "rayIntersects (spheres ! 0) \<lparr>origin = \<lparr>x = 20, y = 0, z = 0\<rparr>, direction = \<lparr>x = 0, y = - 1, z = 0\<rparr>\<rparr> = - 1"
  "rayIntersects (spheres ! 1) \<lparr>origin = \<lparr>x = 20, y = 0, z = 0\<rparr>, direction = \<lparr>x = 0, y = - 1, z = 0\<rparr>\<rparr> = - 1"
  "rayIntersects (spheres ! 2) \<lparr>origin = \<lparr>x = 20, y = 0, z = 0\<rparr>, direction = \<lparr>x = 0, y = - 1, z = 0\<rparr>\<rparr> = - 1"
  by (simp_all add: rayIntersects_discriminant discriminant_def spheres_def subtract_def dot_def)

lemma sideRay_intersections:
  "rayIntersects (spheres ! 0) \<lparr>origin = \<lparr>x = 0, y = 0, z = 0\<rparr>, direction = \<lparr>x = - (3 / 5), y = 0, z = - (4 / 5)\<rparr>\<rparr> = - 1"
  "rayIntersects (spheres ! 1) \<lparr>origin = \<lparr>x = 0, y = 0, z = 0\<rparr>, direction = \<lparr>x = - (3 / 5), y = 0, z = - (4 / 5)\<rparr>\<rparr> = - 1"
  "rayIntersects (spheres ! 2) \<lparr>origin = \<lparr>x = 0, y = 0, z = 0\<rparr>, direction = \<lparr>x = - (3 / 5), y = 0, z = - (4 / 5)\<rparr>\<rparr> = - 1"
  by (simp_all add: rayIntersects_discriminant discriminant_def spheres_def subtract_def dot_def)

lemma upRay_trace:
  "traceRay \<lparr>origin = \<lparr>x = 0, y = 0, z = 0\<rparr>, direction = \<lparr>x = 0, y = 1, z = 0\<rparr>\<rparr>
     = \<lparr>t = - 1, sphereIndex = None, normal = None\<rparr>"
  by (rule traceRay_none [OF upRay_no_hit])

lemma farDownRay_trace:
  "traceRay \<lparr>origin = \<lparr>x = 20, y = 0, z = 0\<rparr>, direction = \<lparr>x = 0, y = - 1, z = 0\<rparr>\<rparr>
     = \<lparr>t = - 1, sphereIndex = None, normal = None\<rparr>"
  by (rule traceRay_none, rule all_spheres) (use farDownRay_intersections in simp_all)

lemma sideRay_trace:
  "traceRay \<lparr>origin = \<lparr>x = 0, y = 0, z = 0\<rparr>, direction = \<lparr>x = - (3 / 5), y = 0, z = - (4 / 5)\<rparr>\<rparr>
     = \<lparr>t = - 1, sphereIndex = None, normal = None\<rparr>"
  by (rule traceRay_none, rule all_spheres) (use sideRay_intersections in simp_all)

lemma normalised_side:
  "normalised \<lparr>x = - (3 / 5), y = 0, z = - (4 / 5)\<rparr> = \<lparr>x = - (3 / 5), y = 0, z = - (4 / 5)\<rparr>"
proof -
  have "(- (3 / 5))\<^sup>2 + (- (4 / 5))\<^sup>2 = (1 :: real)"
    by (simp add: power2_eq_square)
  then show ?thesis by (simp add: normalised_def)
qed

theorem rayColor_background_gradient_witness:
  "rayColor \<lparr>origin = \<lparr>x = 0, y = 0, z = 0\<rparr>, direction = \<lparr>x = 0, y = 1, z = 0\<rparr>\<rparr>
     = Inr \<lparr>x = 0.5, y = 0.9, z = 1\<rparr> \<and>
   rayColor \<lparr>origin = \<lparr>x = 20, y = 0, z = 0\<rparr>, direction = \<lparr>x = 0, y = - 1, z = 0\<rparr>\<rparr>
     = Inr \<lparr>x = 0.3, y = 0.3, z = 0.5\<rparr> \<and>
   rayColor \<lparr>origin = \<lparr>x = 0, y = 0, z = 0\<rparr>, direction = \<lparr>x = - (3 / 5), y = 0, z = - (4 / 5)\<rparr>\<rparr>
     = Inr \<lparr>x = 0.4, y = 0.6, z = 0.75\<rparr>"
proof (intro conjI)
  show "rayColor \<lparr>origin = \<lparr>x = 0, y = 0, z = 0\<rparr>, direction = \<lparr>x = 0, y = 1, z = 0\<rparr>\<rparr>
     = Inr \<lparr>x = 0.5, y = 0.9, z = 1\<rparr>"
    using rayColor_background_gradient
      [of "\<lparr>origin = \<lparr>x = 0, y = 0, z = 0\<rparr>, direction = \<lparr>x = 0, y = 1, z = 0\<rparr>\<rparr>"]
    by (simp add: upRay_trace)
  show "rayColor \<lparr>origin = \<lparr>x = 20, y = 0, z = 0\<rparr>, direction = \<lparr>x = 0, y = - 1, z = 0\<rparr>\<rparr>
     = Inr \<lparr>x = 0.3, y = 0.3, z = 0.5\<rparr>"
    using rayColor_background_gradient
      [of "\<lparr>origin = \<lparr>x = 20, y = 0, z = 0\<rparr>, direction = \<lparr>x = 0, y = - 1, z = 0\<rparr>\<rparr>"]
    by (simp add: farDownRay_trace)
  have "dot \<lparr>x = - (3 / 5), y = 0, z = - (4 / 5)\<rparr> \<lparr>x = - (3 / 5), y = 0, z = - (4 / 5)\<rparr> \<noteq> 0"
    by (simp add: dot_def)
  then show "rayColor \<lparr>origin = \<lparr>x = 0, y = 0, z = 0\<rparr>,
        direction = \<lparr>x = - (3 / 5), y = 0, z = - (4 / 5)\<rparr>\<rparr>
     = Inr \<lparr>x = 0.4, y = 0.6, z = 0.75\<rparr>"
    using rayColor_background_gradient
      [of "\<lparr>origin = \<lparr>x = 0, y = 0, z = 0\<rparr>, direction = \<lparr>x = - (3 / 5), y = 0, z = - (4 / 5)\<rparr>\<rparr>"]
    by (simp add: sideRay_trace normalised_side scale_def add_def)
qed

text \<open>
  C9. The background colour depends only on the \<open>y\<close> component of the normalised
  direction: two rays (of non-zero direction) whose normalised directions have the same
  \<open>y\<close> get the same colour from \<open>backgroundColour\<close>, whatever their origins and their
  \<open>x\<close> and \<open>z\<close>; \<open>phi\<close> and \<open>u\<close> are computed and not used.
\<close>

theorem backgroundColour_latitude_only:
  "dot (direction r1) (direction r1) \<noteq> 0 \<Longrightarrow> dot (direction r2) (direction r2) \<noteq> 0 \<Longrightarrow>
   y (normalised (direction r1)) = y (normalised (direction r2)) \<Longrightarrow>
   backgroundColour r1 = backgroundColour r2"
  by (simp add: backgroundColour_gradient)

theorem backgroundColour_latitude_only_witness:
  "backgroundColour \<lparr>origin = \<lparr>x = 1, y = 2, z = 3\<rparr>, direction = \<lparr>x = 3, y = 4, z = 0\<rparr>\<rparr> =
   backgroundColour \<lparr>origin = \<lparr>x = 0, y = 0, z = 0\<rparr>, direction = \<lparr>x = 0, y = 8, z = - 6\<rparr>\<rparr>"
proof (rule backgroundColour_latitude_only)
  show "dot (direction \<lparr>origin = \<lparr>x = 1, y = 2, z = 3\<rparr>, direction = \<lparr>x = 3, y = 4, z = 0\<rparr>\<rparr>)
      (direction \<lparr>origin = \<lparr>x = 1, y = 2, z = 3\<rparr>, direction = \<lparr>x = 3, y = 4, z = 0\<rparr>\<rparr>) \<noteq> 0"
    by (simp add: dot_def)
  show "dot (direction \<lparr>origin = \<lparr>x = 0, y = 0, z = 0\<rparr>, direction = \<lparr>x = 0, y = 8, z = - 6\<rparr>\<rparr>)
      (direction \<lparr>origin = \<lparr>x = 0, y = 0, z = 0\<rparr>, direction = \<lparr>x = 0, y = 8, z = - 6\<rparr>\<rparr>) \<noteq> 0"
    by (simp add: dot_def)
  show "y (normalised (direction \<lparr>origin = \<lparr>x = 1, y = 2, z = 3\<rparr>, direction = \<lparr>x = 3, y = 4, z = 0\<rparr>\<rparr>))
      = y (normalised (direction \<lparr>origin = \<lparr>x = 0, y = 0, z = 0\<rparr>, direction = \<lparr>x = 0, y = 8, z = - 6\<rparr>\<rparr>))"
    by (simp add: normalised_def sqrt_25 sqrt_100)
qed

section \<open>A ray aimed at the centre of a sphere\<close>


subsection \<open>Rounding to a double\<close>



















subsection \<open>A run in which nothing is rounded\<close>







subsection \<open>Two runs in which a result is rounded\<close>









section \<open>The frame\<close>

text \<open>
  The camera direction \<open>(u, -v, -1)\<close> that \<open>render\<close> normalises is never the zero vector.
\<close>

lemma camera_direction_nonzero:
  "dot \<lparr>x = u, y = v, z = - 1\<rparr> \<lparr>x = u, y = v, z = - 1\<rparr> \<noteq> 0"
proof -
  have "0 \<le> u * u + v * v" by simp
  then have "0 < u * u + v * v + 1" by linarith
  then show ?thesis by (simp add: dot_def)
qed

lemma render_pixel_total: "\<exists>f. render_pixel width height i j = Inr f"
proof -
  obtain c where "rayColor \<lparr>origin = \<lparr>x = 0, y = 0, z = 0\<rparr>,
      direction = normalised \<lparr>x = of_int i / of_int width * 2 - 2 / 2,
        y = - (of_int j / of_int height * 2 - 2 / 2), z = - 1\<rparr>\<rparr> = Inr c"
    using rayColor_total by blast
  then show ?thesis
    by (simp add: render_pixel_def Let_def)
qed

lemma render_pixel_projr: "render_pixel width height i j = Inr (projr (render_pixel width height i j))"
  using render_pixel_total [of width height i j] by auto

lemma render_x_eq:
  "render_x width height py px canvas =
     (canvas @ map (\<lambda>i. projr (render_pixel width height i py)) [px..width - 1], None)"
proof (induction width height py px canvas rule: render_x.induct)
  case (1 width height py px canvas)
  show ?case
  proof (cases "px < width")
    case False
    then show ?thesis by (subst render_x.simps) simp
  next
    case True
    then have up: "[px..width - 1] = px # [px + 1..width - 1]"
      by (subst upto_rec1) simp_all
    have "render_x width height py px canvas =
        render_x width height py (px + 1) (canvas @ [projr (render_pixel width height px py)])"
      using True by (subst render_x.simps, subst render_pixel_projr) simp
    also have "\<dots> = ((canvas @ [projr (render_pixel width height px py)])
        @ map (\<lambda>i. projr (render_pixel width height i py)) [px + 1..width - 1], None)"
      using True render_pixel_projr [of width height px py] by (intro "1.IH") auto
    finally show ?thesis by (simp add: up)
  qed
qed

lemma render_y_eq:
  "render_y width height py canvas =
     (canvas @ concat (map (\<lambda>j. map (\<lambda>i. projr (render_pixel width height i j)) [0..width - 1])
                           [py..height - 1]), None)"
proof (induction width height py canvas rule: render_y.induct)
  case (1 width height py canvas)
  show ?case
  proof (cases "py < height")
    case False
    then show ?thesis by (subst render_y.simps) simp
  next
    case True
    then have up: "[py..height - 1] = py # [py + 1..height - 1]"
      by (subst upto_rec1) simp_all
    have "render_y width height py canvas =
        render_y width height (py + 1)
          (canvas @ map (\<lambda>i. projr (render_pixel width height i py)) [0..width - 1])"
      using True by (subst render_y.simps) (simp add: render_x_eq)
    also have "\<dots> = ((canvas @ map (\<lambda>i. projr (render_pixel width height i py)) [0..width - 1])
        @ concat (map (\<lambda>j. map (\<lambda>i. projr (render_pixel width height i j)) [0..width - 1])
                           [py + 1..height - 1]), None)"
      using True by (intro "1.IH" [OF _ _ refl]) (simp_all add: render_x_eq)
    finally show ?thesis by (simp add: up)
  qed
qed

lemma render_eq:
  "render width height =
     (concat (map (\<lambda>j. map (\<lambda>i. projr (render_pixel width height i j)) [0..width - 1])
                  [0..height - 1]), None)"
  by (simp add: render_def render_y_eq)

text \<open>
  C8. If the width or the height is not positive, \<open>render\<close> runs the body of its inner
  loop for no pixel: the canvas stays empty and no error is raised.
\<close>

theorem render_empty_frame:
  "width \<le> 0 \<or> height \<le> 0 \<Longrightarrow> render width height = ([], None)"
  by (auto simp add: render_eq)

theorem render_empty_frame_witness:
  "render 0 4 = ([], None) \<and> render 4 (- 3) = ([], None) \<and> render 0 0 = ([], None)"
  using render_empty_frame [of 0 4] render_empty_frame [of 4 "- 3"] render_empty_frame [of 0 0]
  by simp

lemma render_delivers:
  assumes "0 \<le> i" "i < width" "0 \<le> j" "j < height"
  shows "projr (render_pixel width height i j) \<in> set (fst (render width height))"
proof -
  have "i \<in> set [0..width - 1]" "j \<in> set [0..height - 1]"
    using assms by simp_all
  then show ?thesis
    unfolding render_eq by (simp del: set_upto) blast
qed

lemma render_pixel_value:
  assumes "rayColor \<lparr>origin = \<lparr>x = 0, y = 0, z = 0\<rparr>,
      direction = normalised \<lparr>x = of_int i / of_int width * 2 - 1,
        y = - (of_int j / of_int height * 2 - 1), z = - 1\<rparr>\<rparr> = Inr c"
  shows "render_pixel width height i j =
     Inr \<lparr>fillX = i, fillY = j, fillR = min 1 (max 0 (x c)) * 255,
          fillG = min 1 (max 0 (y c)) * 255, fillB = min 1 (max 0 (z c)) * 255\<rparr>"
  using assms by (simp add: render_pixel_def Let_def)

lemma clamp_channel:
  fixes a :: real
  shows "0 \<le> min 1 (max 0 a) * 255" "min 1 (max 0 a) * 255 \<le> 255"
  by (simp_all add: min_def max_def)

lemma render_fills_in_range:
  assumes "f \<in> set (fst (render width height))"
  shows "0 \<le> fillX f \<and> fillX f < width \<and> 0 \<le> fillY f \<and> fillY f < height \<and>
     0 \<le> fillR f \<and> fillR f \<le> 255 \<and> 0 \<le> fillG f \<and> fillG f \<le> 255 \<and>
     0 \<le> fillB f \<and> fillB f \<le> 255"
proof -
  from assms obtain i j where ij: "0 \<le> i" "i < width" "0 \<le> j" "j < height"
    and f: "f = projr (render_pixel width height i j)"
    unfolding render_eq by auto
  obtain c where "rayColor \<lparr>origin = \<lparr>x = 0, y = 0, z = 0\<rparr>,
      direction = normalised \<lparr>x = of_int i / of_int width * 2 - 1,
        y = - (of_int j / of_int height * 2 - 1), z = - 1\<rparr>\<rparr> = Inr c"
    using rayColor_total by blast
  then have "f = \<lparr>fillX = i, fillY = j, fillR = min 1 (max 0 (x c)) * 255,
          fillG = min 1 (max 0 (y c)) * 255, fillB = min 1 (max 0 (z c)) * 255\<rparr>"
    by (simp add: f render_pixel_value)
  with ij show ?thesis
    by (simp add: clamp_channel)
qed

text \<open>
  C6, as the code has it. For every pixel \<open>(i, j)\<close> with \<open>0 \<le> i < width\<close> and
  \<open>0 \<le> j < height\<close>, \<open>render\<close> issues a fill for that pixel whose three channels are the
  channels of the colour \<open>rayColor\<close> gives the camera ray of the pixel, clamped to
  \<open>[0, 1]\<close> and multiplied by 255; each is a number in \<open>[0, 255]\<close>. The channels are not
  rounded. Every fill issued is for a pixel of the frame and has its channels in
  \<open>[0, 255]\<close>, and \<open>render\<close> raises no error.
\<close>

theorem render_pixel_channels:
  "(0 \<le> i \<and> i < width \<and> 0 \<le> j \<and> j < height \<longrightarrow>
      (\<exists>c. rayColor \<lparr>origin = \<lparr>x = 0, y = 0, z = 0\<rparr>,
               direction = normalised \<lparr>x = of_int i / of_int width * 2 - 1,
                 y = - (of_int j / of_int height * 2 - 1), z = - 1\<rparr>\<rparr> = Inr c \<and>
           \<lparr>fillX = i, fillY = j, fillR = min 1 (max 0 (x c)) * 255,
            fillG = min 1 (max 0 (y c)) * 255, fillB = min 1 (max 0 (z c)) * 255\<rparr>
             \<in> set (fst (render width height)) \<and>
           0 \<le> min 1 (max 0 (x c)) * 255 \<and> min 1 (max 0 (x c)) * 255 \<le> 255 \<and>
           0 \<le> min 1 (max 0 (y c)) * 255 \<and> min 1 (max 0 (y c)) * 255 \<le> 255 \<and>
           0 \<le> min 1 (max 0 (z c)) * 255 \<and> min 1 (max 0 (z c)) * 255 \<le> 255)) \<and>
   (\<forall>f \<in> set (fst (render width height)).
      0 \<le> fillX f \<and> fillX f < width \<and> 0 \<le> fillY f \<and> fillY f < height \<and>
      0 \<le> fillR f \<and> fillR f \<le> 255 \<and> 0 \<le> fillG f \<and> fillG f \<le> 255 \<and>
      0 \<le> fillB f \<and> fillB f \<le> 255) \<and>
   snd (render width height) = None"
  (is "(?inside \<longrightarrow> ?delivered) \<and> ?all \<and> ?no_error")
proof (intro conjI)
  show "?inside \<longrightarrow> ?delivered"
  proof
    assume ij: ?inside
    obtain c where c: "rayColor \<lparr>origin = \<lparr>x = 0, y = 0, z = 0\<rparr>,
        direction = normalised \<lparr>x = of_int i / of_int width * 2 - 1,
          y = - (of_int j / of_int height * 2 - 1), z = - 1\<rparr>\<rparr> = Inr c"
      using rayColor_total by blast
    have "projr (render_pixel width height i j) \<in> set (fst (render width height))"
      using ij by (intro render_delivers) simp_all
    then have "\<lparr>fillX = i, fillY = j, fillR = min 1 (max 0 (x c)) * 255,
              fillG = min 1 (max 0 (y c)) * 255, fillB = min 1 (max 0 (z c)) * 255\<rparr>
               \<in> set (fst (render width height))"
      by (simp add: render_pixel_value [OF c])
    with c show ?delivered
      using clamp_channel by blast
  qed
  show ?all
    using render_fills_in_range by blast
  show ?no_error
    by (simp add: render_eq)
qed

lemma sideRay_color:
  "rayColor \<lparr>origin = \<lparr>x = 0, y = 0, z = 0\<rparr>, direction = \<lparr>x = - (3 / 5), y = 0, z = - (4 / 5)\<rparr>\<rparr>
     = Inr \<lparr>x = 2 / 5, y = 3 / 5, z = 3 / 4\<rparr>"
  by (simp add: rayColor_miss sideRay_trace backgroundColour_gradient normalised_side
      scale_def add_def)

lemma pixel_1_1_direction:
  "normalised \<lparr>x = of_int 1 / of_int 8 * 2 - 1, y = - (of_int 1 / of_int 2 * 2 - 1), z = - 1\<rparr>
     = \<lparr>x = - (3 / 5), y = 0, z = - (4 / 5)\<rparr>"
proof -
  have v: "\<lparr>x = of_int 1 / of_int 8 * 2 - 1, y = - (of_int 1 / of_int 2 * 2 - 1), z = - 1\<rparr>
      = \<lparr>x = - (3 / 4), y = 0, z = - 1 :: real\<rparr>"
    by simp
  have len: "sqrt ((- (3 / 4))\<^sup>2 + 0\<^sup>2 + (- 1)\<^sup>2) = (5 / 4 :: real)"
    by (rule real_sqrt_unique) (simp_all add: power2_eq_square)
  have "normalised \<lparr>x = - (3 / 4), y = 0, z = - 1\<rparr> = \<lparr>x = - (3 / 5), y = 0, z = - (4 / 5)\<rparr>"
    unfolding normalised_def Let_def Vec3.simps len by simp
  then show ?thesis by (simp only: v)
qed

lemma quarter_not_int: "(765 / 4 :: real) \<notin> \<int>"
proof
  assume "(765 / 4 :: real) \<in> \<int>"
  then obtain n :: int where "(765 / 4 :: real) = of_int n"
    by (auto elim: Ints_cases)
  then have "(765 :: real) = of_int (4 * n)" by simp
  then have "(765 :: int) = 4 * n" by (simp only: of_int_eq_iff [symmetric] of_int_numeral)
  then show False by presburger
qed

text \<open>
  C6, as stated, asks every channel to be an integer. In a frame of width 8 and height 2
  the pixel \<open>(1, 1)\<close> has the camera direction \<open>(-3/5, 0, -4/5)\<close>, which misses every
  sphere; the background colour is \<open>(0.4, 0.6, 0.75)\<close> and the blue channel written is
  \<open>0.75 * 255 = 191.25\<close>.
\<close>

theorem render_channel_not_integer:
  "\<lparr>fillX = 1, fillY = 1, fillR = 102, fillG = 153, fillB = 765 / 4\<rparr> \<in> set (fst (render 8 2)) \<and>
   (765 / 4 :: real) \<notin> \<int>"
proof
  have "rayColor \<lparr>origin = \<lparr>x = 0, y = 0, z = 0\<rparr>,
      direction = normalised \<lparr>x = of_int 1 / of_int 8 * 2 - 1,
        y = - (of_int 1 / of_int 2 * 2 - 1), z = - 1\<rparr>\<rparr>
      = Inr \<lparr>x = 2 / 5, y = 3 / 5, z = 3 / 4\<rparr>"
    by (simp only: pixel_1_1_direction sideRay_color)
  then have "render_pixel 8 2 1 1 =
      Inr \<lparr>fillX = 1, fillY = 1, fillR = min 1 (max 0 (x \<lparr>x = 2 / 5, y = 3 / 5, z = 3 / 4\<rparr>)) * 255,
          fillG = min 1 (max 0 (y \<lparr>x = 2 / 5, y = 3 / 5, z = 3 / 4 :: real\<rparr>)) * 255,
          fillB = min 1 (max 0 (z \<lparr>x = 2 / 5, y = 3 / 5, z = 3 / 4 :: real\<rparr>)) * 255\<rparr>"
    by (rule render_pixel_value)
  then have "render_pixel 8 2 1 1 =
      Inr \<lparr>fillX = 1, fillY = 1, fillR = 102, fillG = 153, fillB = 765 / 4\<rparr>"
    by simp
  moreover have "projr (render_pixel 8 2 1 1) \<in> set (fst (render 8 2))"
    by (rule render_delivers) simp_all
  ultimately show "\<lparr>fillX = 1, fillY = 1, fillR = 102, fillG = 153, fillB = 765 / 4\<rparr>
      \<in> set (fst (render 8 2))"
    by simp
next
  show "(765 / 4 :: real) \<notin> \<int>" by (rule quarter_not_int)
qed

theorem render_pixel_channels_witness:
  "\<lparr>fillX = 1, fillY = 1, fillR = 102, fillG = 153, fillB = 765 / 4\<rparr> \<in> set (fst (render 8 2)) \<and>
   (0 :: real) \<le> 765 / 4 \<and> (765 / 4 :: real) \<le> 255 \<and> snd (render 8 2) = None"
proof -
  have col: "rayColor \<lparr>origin = \<lparr>x = 0, y = 0, z = 0\<rparr>,
      direction = normalised \<lparr>x = of_int 1 / of_int 8 * 2 - 1,
        y = - (of_int 1 / of_int 2 * 2 - 1), z = - 1\<rparr>\<rparr>
      = Inr \<lparr>x = 2 / 5, y = 3 / 5, z = 3 / 4\<rparr>"
    by (simp only: pixel_1_1_direction sideRay_color)
  have "(0 :: int) \<le> 1 \<and> (1 :: int) < 8 \<and> (0 :: int) \<le> 1 \<and> (1 :: int) < 2" by simp
  with render_pixel_channels [of 1 8 1 2]
  obtain c where c: "rayColor \<lparr>origin = \<lparr>x = 0, y = 0, z = 0\<rparr>,
               direction = normalised \<lparr>x = of_int 1 / of_int 8 * 2 - 1,
                 y = - (of_int 1 / of_int 2 * 2 - 1), z = - 1\<rparr>\<rparr> = Inr c"
    and mem: "\<lparr>fillX = 1, fillY = 1, fillR = min 1 (max 0 (x c)) * 255,
            fillG = min 1 (max 0 (y c)) * 255, fillB = min 1 (max 0 (z c)) * 255\<rparr>
             \<in> set (fst (render 8 2))"
    and rng: "0 \<le> min 1 (max 0 (z c)) * 255" "min 1 (max 0 (z c)) * 255 \<le> 255"
    and ok: "snd (render 8 2) = None"
    by blast
  from c col have "c = \<lparr>x = 2 / 5, y = 3 / 5, z = 3 / 4\<rparr>" by simp
  with mem rng ok show ?thesis by simp
qed

end
